theory Spec2Isabelle
  imports Main
begin

section \<open>The IAM module (cloud/amazon/iam.py): values, provider calls and control flow\<close>

text \<open>
  A Python value that is either \<open>None\<close> or a string (the module parameters \<open>name\<close>,
  \<open>new_name\<close>, \<open>path\<close>, \<open>new_path\<close>, \<open>password\<close>, \<open>access_key_state\<close>) is a
  \<open>string option\<close>; \<open>truthy\<close> is Python's truth value of such a value.
\<close>

type_synonym pystr = "string option"

fun truthy :: "pystr \<Rightarrow> bool" where
  "truthy None = False"
| "truthy (Some s) = (s \<noteq> [])"

text \<open>\<open>sub in s\<close> on Python strings: \<open>sub\<close> occurs in \<open>s\<close> as a contiguous run.\<close>

fun contains :: "string \<Rightarrow> string \<Rightarrow> bool" where
  "contains sub [] = (sub = [])"
| "contains sub (c # cs) = (take (length sub) (c # cs) = sub \<or> contains sub cs)"

text \<open>\<open>str.lower()\<close>, \<open>str.upper()\<close> on one byte and \<open>str.capitalize()\<close> (ASCII letters only).\<close>

definition lower_char :: "char \<Rightarrow> char" where
  "lower_char c =
     (case map_of (zip ''ABCDEFGHIJKLMNOPQRSTUVWXYZ'' ''abcdefghijklmnopqrstuvwxyz'') c of
        None \<Rightarrow> c | Some d \<Rightarrow> d)"

definition upper_char :: "char \<Rightarrow> char" where
  "upper_char c =
     (case map_of (zip ''abcdefghijklmnopqrstuvwxyz'' ''ABCDEFGHIJKLMNOPQRSTUVWXYZ'') c of
        None \<Rightarrow> c | Some d \<Rightarrow> d)"

definition lower :: "string \<Rightarrow> string" where
  "lower s = map lower_char s"

fun capitalize :: "string \<Rightarrow> string" where
  "capitalize [] = []"
| "capitalize (c # cs) = upper_char c # map lower_char cs"

text \<open>
  Every method of the boto connection the module calls, with the arguments the module
  passes. Arguments that come from module parameters may be \<open>None\<close>; arguments that come
  from a provider listing or from a list parameter are strings.
\<close>

datatype call =
    GetAllGroups
  | GetAllUsers
  | ListRoles
  | ListInstanceProfiles
  | CreateUser pystr pystr
  | GetUser pystr
  | UpdateUser pystr pystr pystr
  | DeleteUser pystr
  | CreateLoginProfile pystr pystr
  | UpdateLoginProfile pystr pystr
  | GetLoginProfiles pystr
  | DeleteLoginProfile pystr
  | GetAllAccessKeys pystr
  | CreateAccessKey pystr
  | UpdateAccessKey string string pystr
  | DeleteAccessKey string pystr
  | GetAllUserPolicies pystr
  | DeleteUserPolicy pystr string
  | GetGroupsForUser pystr
  | AddUserToGroup string pystr
  | RemoveUserFromGroup string pystr
  | CreateGroup pystr pystr
  | GetGroup pystr
  | UpdateGroup pystr pystr pystr
  | DeleteGroup pystr
  | GetAllGroupPolicies pystr
  | DeleteGroupPolicy pystr string
  | CreateRole pystr pystr
  | DeleteRole pystr
  | ListRolePolicies pystr
  | DeleteRolePolicy pystr string
  | ListInstanceProfilesForRole pystr
  | RemoveRoleFromInstanceProfile string pystr
  | CreateInstanceProfile pystr pystr
  | AddRoleToInstanceProfile pystr pystr
  | DeleteInstanceProfile pystr

text \<open>
  What a call answers: a \<open>BotoServerError\<close> (its \<open>error_message\<close> and its \<open>str()\<close>), or
  the part of the response the module reads: a list of names, the access-key metadata
  (key id and status), the \<open>path\<close> of a user or group, or an object the module only passes on.
\<close>

datatype resp =
    Fault string string
  | Obj string
  | Names "string list"
  | Keys "(string \<times> string) list"
  | PathOf string

fun is_fault :: "resp \<Rightarrow> bool" where
  "is_fault (Fault em tx) = True"
| "is_fault r = False"

text \<open>
  Exceptions the module can meet: the provider's \<open>BotoServerError\<close>, Python's
  \<open>UnboundLocalError\<close> for a local read before its assignment, and \<open>AttributeError\<close> for a
  response that lacks the attribute the module reads.
\<close>

datatype exn =
    BotoServerError string string
  | UnboundLocalError string
  | AttributeError

text \<open>
  \<open>module.exit_json\<close> and \<open>module.fail_json\<close> print the result and leave the process
  (\<open>SystemExit\<close>, which no \<open>except Exception\<close> clause catches). Only the \<open>changed\<close>
  value and the failure message of the result are kept. \<open>changed\<close> is whatever Python
  value the call site passes (a boolean, or once a name); \<open>fail_json\<close> is sometimes
  called without \<open>changed\<close>.
\<close>

datatype pyval = PyBool bool | PyStr pystr

datatype exit =
    ExitJson pyval
  | FailJson "bool option" string

datatype 'a res = Ret 'a | Raise exn | Halt exit

text \<open>
  The provider is any function from its state and a call to a response and a new state.
  A program runs on the provider's state and the list of calls issued so far.
\<close>

type_synonym 's provider = "'s \<Rightarrow> call \<Rightarrow> resp \<times> 's"
type_synonym 's world = "'s \<times> call list"
type_synonym ('s, 'a) prog = "'s world \<Rightarrow> 'a res \<times> 's world"

definition ret :: "'a \<Rightarrow> ('s, 'a) prog" where
  "ret a w = (Ret a, w)"

definition raise :: "exn \<Rightarrow> ('s, 'a) prog" where
  "raise e w = (Raise e, w)"

definition exit_json :: "pyval \<Rightarrow> ('s, 'a) prog" where
  "exit_json changed w = (Halt (ExitJson changed), w)"

definition fail_json :: "bool option \<Rightarrow> string \<Rightarrow> ('s, 'a) prog" where
  "fail_json changed msg w = (Halt (FailJson changed msg), w)"

definition bnd :: "('s, 'a) prog \<Rightarrow> ('a \<Rightarrow> ('s, 'b) prog) \<Rightarrow> ('s, 'b) prog" where
  "bnd m f w = (case m w of
       (Ret a, w') \<Rightarrow> f a w'
     | (Raise e, w') \<Rightarrow> (Raise e, w')
     | (Halt x, w') \<Rightarrow> (Halt x, w'))"

text \<open>\<open>try: m except boto.exception.BotoServerError, err: h err\<close>.\<close>

definition try_boto :: "('s, 'a) prog \<Rightarrow> (string \<Rightarrow> string \<Rightarrow> ('s, 'a) prog) \<Rightarrow> ('s, 'a) prog" where
  "try_boto m h w = (case m w of
       (Raise (BotoServerError em tx), w') \<Rightarrow> h em tx w'
     | r \<Rightarrow> r)"

text \<open>\<open>try: m except Exception as ex: h ex\<close>.\<close>

definition try_exception :: "('s, 'a) prog \<Rightarrow> (exn \<Rightarrow> ('s, 'a) prog) \<Rightarrow> ('s, 'a) prog" where
  "try_exception m h w = (case m w of
       (Raise e, w') \<Rightarrow> h e w'
     | r \<Rightarrow> r)"

text \<open>One provider call: it is recorded, and a fault is raised as \<open>BotoServerError\<close>.\<close>

definition iam :: "'s provider \<Rightarrow> call \<Rightarrow> ('s, resp) prog" where
  "iam p c w = (case w of (s, tr) \<Rightarrow>
     (case p s c of
        (Fault em tx, s') \<Rightarrow> (Raise (BotoServerError em tx), (s', tr @ [c]))
      | (r, s') \<Rightarrow> (Ret r, (s', tr @ [c]))))"

text \<open>A provider call whose response the module does not read.\<close>

definition iam_do :: "'s provider \<Rightarrow> call \<Rightarrow> ('s, unit) prog" where
  "iam_do p c = bnd (iam p c) (\<lambda>r. ret ())"

text \<open>Reading the attribute chain of a response; a response of another shape has no such attribute.\<close>

fun names_of :: "resp \<Rightarrow> ('s, string list) prog" where
  "names_of (Names xs) = ret xs"
| "names_of r = raise AttributeError"

fun keys_of :: "resp \<Rightarrow> ('s, (string \<times> string) list) prog" where
  "keys_of (Keys ks) = ret ks"
| "keys_of r = raise AttributeError"

fun path_of :: "resp \<Rightarrow> ('s, string) prog" where
  "path_of (PathOf q) = ret q"
| "path_of r = raise AttributeError"

fun obj_of :: "resp \<Rightarrow> ('s, string) prog" where
  "obj_of (Obj x) = ret x"
| "obj_of r = raise AttributeError"

text \<open>\<open>for x in xs: f x\<close>.\<close>

fun for_each :: "('a \<Rightarrow> ('s, unit) prog) \<Rightarrow> 'a list \<Rightarrow> ('s, unit) prog" where
  "for_each f [] = ret ()"
| "for_each f (x # xs) = bnd (f x) (\<lambda>u. for_each f xs)"

text \<open>\<open>for x in xs: changed = f x changed\<close>: a loop that carries the \<open>changed\<close> flag.\<close>

fun for_acc :: "('a \<Rightarrow> 'b \<Rightarrow> ('s, 'b) prog) \<Rightarrow> 'a list \<Rightarrow> 'b \<Rightarrow> ('s, 'b) prog" where
  "for_acc f [] acc = ret acc"
| "for_acc f (x # xs) acc = bnd (f x acc) (\<lambda>acc'. for_acc f xs acc')"

text \<open>\<open>boto_exception(err)\<close>: a \<open>BotoServerError\<close> has \<open>error_message\<close>; a plain string has
  neither \<open>error_message\<close> nor \<open>message\<close>.\<close>

definition boto_exception :: "string \<Rightarrow> string \<Rightarrow> string" where
  "boto_exception em tx = em"

definition boto_exception_str :: "string \<Rightarrow> string" where
  "boto_exception_str s = ''<type 'exceptions.Exception'>: '' @ s"

text \<open>\<open>str(ex)\<close> of an exception.\<close>

fun str_exn :: "exn \<Rightarrow> string" where
  "str_exn (BotoServerError em tx) = tx"
| "str_exn (UnboundLocalError v) = ''local variable '' @ v @ '' referenced before assignment''"
| "str_exn AttributeError = ''AttributeError''"

text \<open>\<open>str(x)\<close> of a value that is \<open>None\<close> or a string, as \<open>%s\<close> formats it.\<close>

fun str_py :: "pystr \<Rightarrow> string" where
  "str_py None = ''None''"
| "str_py (Some s) = s"

subsection \<open>set_users_groups\<close>

text \<open>
  \<open>[x for x in frozenset(xs).difference(ys)]\<close>: the elements of \<open>xs\<close> not in \<open>ys\<close>, each
  once. Python leaves the iteration order of a frozenset open; the model lists them in
  the order of their first occurrence in \<open>xs\<close>.
\<close>

definition frozenset_difference :: "string list \<Rightarrow> string list \<Rightarrow> string list" where
  "frozenset_difference xs ys = remdups (filter (\<lambda>x. x \<notin> set ys) xs)"

definition add_group_guarded :: "'s provider \<Rightarrow> pystr \<Rightarrow> string \<Rightarrow> ('s, unit) prog" where
  "add_group_guarded p name grp =
     try_boto (iam_do p (AddUserToGroup grp name))
       (\<lambda>em tx. if contains (''The group with name '' @ grp @ '' cannot be found.'') (boto_exception em tx)
                 then fail_json (Some False) (''Group '' @ grp @ '' doesn't exist'')
                 else ret ())"

definition set_users_groups ::
  "'s provider \<Rightarrow> pystr \<Rightarrow> string list \<Rightarrow> bool \<Rightarrow> pystr \<Rightarrow> ('s, string list \<times> bool) prog" where
  "set_users_groups p name0 groups updated new_name =
     (let changed = False;
          name = (if updated then new_name else name0)
      in bnd (try_boto
                (bnd (iam p (GetGroupsForUser name)) (\<lambda>r.
                 bnd (names_of r) (\<lambda>orig_users_groups.
                 ret (orig_users_groups,
                      frozenset_difference orig_users_groups groups,
                      frozenset_difference groups orig_users_groups))))
                (\<lambda>em tx. fail_json (Some changed) tx))
           (\<lambda>(orig_users_groups, remove_groups, new_groups).
              bnd (if length orig_users_groups > 0
                   then bnd (for_each (\<lambda>new. iam_do p (AddUserToGroup new name)) new_groups)
                          (\<lambda>u. for_each (\<lambda>rm. iam_do p (RemoveUserFromGroup rm name)) remove_groups)
                   else for_each (add_group_guarded p name) groups)
                (\<lambda>u. ret (groups, length remove_groups > 0 \<or> length new_groups > 0))))"

subsection \<open>create_user\<close>

text \<open>The \<open>while key_count > key_qty\<close> loop of \<open>create_user\<close>, which collects the new keys.\<close>

function create_keys_while ::
  "'s provider \<Rightarrow> pystr \<Rightarrow> int \<Rightarrow> int \<Rightarrow> string list \<Rightarrow> ('s, string list) prog" where
  "create_keys_while p name key_count key_qty keys w =
     (if key_count > key_qty
      then bnd (iam p (CreateAccessKey name)) (\<lambda>r.
           bnd (obj_of r) (\<lambda>k.
           create_keys_while p name key_count (key_qty + 1) (keys @ [k]))) w
      else ret keys w)"
  by pat_completeness auto
termination
  by (relation "measure (\<lambda>(p, name, key_count, key_qty, keys, w). nat (key_count - key_qty))") auto

record user_info =
  created_user :: string
  password :: "resp option"
  access_keys :: "string list option"

definition create_user ::
  "'s provider \<Rightarrow> pystr \<Rightarrow> pystr \<Rightarrow> pystr \<Rightarrow> pystr \<Rightarrow> int \<Rightarrow> ('s, user_info \<times> bool) prog" where
  "create_user p name pwd path key_state key_count =
     (let key_qty = 0; keys = [] in
      bnd (try_boto
             (bnd (iam p (CreateUser name path)) (\<lambda>r.
              bnd (obj_of r) (\<lambda>user_meta.
              bnd (if pwd \<noteq> None
                   then bnd (iam p (CreateLoginProfile name pwd)) (\<lambda>r. ret (Some r))
                   else ret None) (\<lambda>pwd'.
              bnd (if key_state = Some ''create''
                   then (if key_count \<noteq> 0
                         then bnd (create_keys_while p name key_count key_qty keys) (\<lambda>ks. ret (Some ks))
                         else ret (Some keys))
                   else ret None) (\<lambda>keys'.
              ret (user_meta, pwd', keys', True))))))
             (\<lambda>em tx. fail_json (Some False) tx))
        (\<lambda>(user_meta, pwd', keys', changed).
           ret (\<lparr>created_user = user_meta, password = pwd', access_keys = keys'\<rparr>, changed)))"

subsection \<open>delete_user\<close>

text \<open>
  The statements after \<open>module.fail_json\<close> in the \<open>except Exception\<close> clause (the
  inline-policy clean-up and the second \<open>delete_user\<close>) are never reached, since
  \<open>fail_json\<close> leaves the process. The inner \<open>try\<close> has no \<open>else\<close>: when
  \<open>get_login_profiles\<close> answers, nothing more is called.
\<close>

definition delete_user :: "'s provider \<Rightarrow> pystr \<Rightarrow> ('s, string \<times> pystr \<times> bool) prog" where
  "delete_user p name =
     (let del_meta = [] in
      bnd (try_exception
             (bnd (iam p (GetAllAccessKeys name)) (\<lambda>r.
              bnd (keys_of r) (\<lambda>meta.
              bnd (for_each (\<lambda>key. iam_do p (DeleteAccessKey key name)) (map fst meta)) (\<lambda>u.
              try_boto
                (bnd (iam p (GetLoginProfiles name)) (\<lambda>r.
                 bnd (obj_of r) (\<lambda>login_profile. ret del_meta)))
                (\<lambda>em tx.
                   if contains ''Cannot find Login Profile'' (boto_exception em tx)
                   then bnd (iam p (DeleteUser name)) (\<lambda>r. obj_of r)
                   else bnd (iam_do p (DeleteLoginProfile name)) (\<lambda>u.
                        bnd (iam p (DeleteUser name)) (\<lambda>r. obj_of r)))))))
             (\<lambda>ex. fail_json (Some False) (''delete failed '' @ str_exn ex)))
        (\<lambda>del_meta'. ret (del_meta', name, True)))"

subsection \<open>update_user\<close>

text \<open>
  The tuple \<open>[ck['access_key_id'] for ck in get_all_access_keys(name)...],
  [ck['status'] for ck in get_all_access_keys(name)...]\<close>: two calls, the ids of the
  first answer and the statuses of the second.
\<close>

definition get_keys_and_status :: "'s provider \<Rightarrow> pystr \<Rightarrow> ('s, string list \<times> string list) prog" where
  "get_keys_and_status p name =
     bnd (iam p (GetAllAccessKeys name)) (\<lambda>r1.
     bnd (keys_of r1) (\<lambda>m1.
     bnd (iam p (GetAllAccessKeys name)) (\<lambda>r2.
     bnd (keys_of r2) (\<lambda>m2.
     ret (map fst m1, map snd m2)))))"

text \<open>
  Lines 238-257: the effective name and the current keys. \<open>key_qty\<close> is assigned only
  in the \<open>try\<close> body; after the fallback to \<open>new_name\<close> it is unbound (\<open>None\<close> here).
\<close>

definition fetch_current_keys ::
  "'s provider \<Rightarrow> pystr \<Rightarrow> pystr \<Rightarrow> bool \<Rightarrow> ('s, pystr \<times> string list \<times> string list \<times> int option) prog" where
  "fetch_current_keys p name0 new_name updated =
     (let name = (if updated \<and> truthy new_name then new_name else name0) in
      try_boto
        (bnd (get_keys_and_status p name) (\<lambda>(current_keys, status).
         ret (name, current_keys, status, Some (int (length current_keys)))))
        (\<lambda>em tx.
           if contains ''cannot be found'' (boto_exception em tx) \<and> updated
           then bnd (get_keys_and_status p new_name) (\<lambda>(current_keys, status).
                ret (new_name, current_keys, status, None))
           else fail_json (Some False) tx))"

text \<open>Lines 261-279: the rename or path change. Returns \<open>(changed, name_change)\<close>.\<close>

definition rename_step ::
  "'s provider \<Rightarrow> pystr \<Rightarrow> pystr \<Rightarrow> pystr \<Rightarrow> bool \<Rightarrow> ('s, bool \<times> bool) prog" where
  "rename_step p name new_name new_path updated =
     (if truthy new_name \<or> truthy new_path
      then bnd (iam p (GetUser name)) (\<lambda>r.
           bnd (path_of r) (\<lambda>c_path.
           if name \<noteq> new_name \<or> Some c_path \<noteq> new_path
           then bnd (try_boto
                       (bnd (iam p (if \<not> updated then UpdateUser name new_name new_path
                                    else UpdateUser name None new_path)) (\<lambda>r. obj_of r))
                       (\<lambda>em tx. fail_json (Some False) tx))
                  (\<lambda>user. ret (True, \<not> updated))
           else ret (False, False)))
      else ret (False, False))"

text \<open>Lines 281-294: the password.\<close>

definition password_step :: "'s provider \<Rightarrow> pystr \<Rightarrow> pystr \<Rightarrow> bool \<Rightarrow> ('s, bool) prog" where
  "password_step p name pwd changed =
     (if truthy pwd
      then try_boto
             (bnd (iam_do p (UpdateLoginProfile name pwd)) (\<lambda>u. ret True))
             (\<lambda>em tx.
                try_boto
                  (bnd (iam_do p (CreateLoginProfile name pwd)) (\<lambda>u. ret True))
                  (\<lambda>em' tx'.
                     let error_msg = boto_exception_str tx' in
                     if contains ''Password does not conform to the account password policy'' error_msg
                     then fail_json (Some False) ''Passsword doesn't conform to policy''
                     else fail_json None error_msg))
      else ret changed)"

text \<open>Lines 296-305: the \<open>while key_count > key_qty\<close> loop of \<open>update_user\<close>; reading an
  unbound \<open>key_qty\<close> raises.\<close>

function update_keys_while ::
  "'s provider \<Rightarrow> pystr \<Rightarrow> int \<Rightarrow> int \<Rightarrow> bool \<Rightarrow> ('s, bool) prog" where
  "update_keys_while p name key_count key_qty changed w =
     (if key_count > key_qty
      then bnd (iam p (CreateAccessKey name)) (\<lambda>r.
           bnd (obj_of r) (\<lambda>new_key.
           update_keys_while p name key_count (key_qty + 1) True)) w
      else ret changed w)"
  by pat_completeness auto
termination
  by (relation "measure (\<lambda>(p, name, key_count, key_qty, changed, w). nat (key_count - key_qty))") auto

definition create_keys_step ::
  "'s provider \<Rightarrow> pystr \<Rightarrow> pystr \<Rightarrow> int \<Rightarrow> int option \<Rightarrow> bool \<Rightarrow> ('s, bool) prog" where
  "create_keys_step p name key_state key_count key_qty changed =
     (if key_state = Some ''create''
      then try_boto
             (case key_qty of
                None \<Rightarrow> raise (UnboundLocalError ''key_qty'')
              | Some q \<Rightarrow> update_keys_while p name key_count q changed)
             (\<lambda>em tx. fail_json (Some False) tx)
      else ret changed)"

text \<open>Lines 307-326: the explicit key-id list. The inner loop runs over every current
  key and compares the requested state with that key's status.\<close>

definition key_state_step ::
  "'s provider \<Rightarrow> pystr \<Rightarrow> pystr \<Rightarrow> string list option \<Rightarrow> string list \<Rightarrow> string list \<Rightarrow> bool \<Rightarrow> ('s, bool) prog" where
  "key_state_step p name key_state keys current_keys status changed =
     (if (case keys of None \<Rightarrow> False | Some ks \<Rightarrow> ks \<noteq> []) \<and> truthy key_state
      then for_acc
             (\<lambda>access_key changed1.
                if access_key \<in> set current_keys
                then bnd (for_acc
                            (\<lambda>(current_key, current_key_state) changed2.
                               if key_state \<noteq> Some (lower current_key_state)
                               then bnd (try_boto
                                           (iam_do p (UpdateAccessKey access_key
                                                        (capitalize (str_py key_state)) name))
                                           (\<lambda>em tx. fail_json (Some False) tx))
                                      (\<lambda>u. ret True)
                               else ret changed2)
                            (zip current_keys status) changed1)
                       (\<lambda>changed3.
                          if key_state = Some ''remove''
                          then bnd (try_boto (iam_do p (DeleteAccessKey access_key name))
                                      (\<lambda>em tx. fail_json (Some False) tx))
                                 (\<lambda>u. ret True)
                          else ret changed3)
                else ret changed1)
             (case keys of None \<Rightarrow> [] | Some ks \<Rightarrow> ks) changed
      else ret changed)"

text \<open>\<open>updated_key_list\<close>: the dictionary filled by \<open>update({fk: fks})\<close> in list order.\<close>

definition dict_of :: "(string \<times> string) list \<Rightarrow> (string \<rightharpoonup> string)" where
  "dict_of kvs = foldl (\<lambda>m (k, v). m(k \<mapsto> v)) Map.empty kvs"

definition update_user ::
  "'s provider \<Rightarrow> pystr \<Rightarrow> pystr \<Rightarrow> pystr \<Rightarrow> pystr \<Rightarrow> int \<Rightarrow> string list option \<Rightarrow> pystr \<Rightarrow> bool
     \<Rightarrow> ('s, bool \<times> (string \<rightharpoonup> string) \<times> bool) prog" where
  "update_user p name0 new_name new_path key_state key_count keys pwd updated =
     bnd (fetch_current_keys p name0 new_name updated) (\<lambda>(name, current_keys, status, key_qty).
     bnd (rename_step p name new_name new_path updated) (\<lambda>(changed1, name_change).
     bnd (password_step p name pwd changed1) (\<lambda>changed2.
     bnd (create_keys_step p name key_state key_count key_qty changed2) (\<lambda>changed3.
     bnd (key_state_step p name key_state keys current_keys status changed3) (\<lambda>changed.
     bnd (try_boto (get_keys_and_status p name) (\<lambda>em tx. fail_json (Some changed) tx))
       (\<lambda>(final_keys, final_key_status).
     ret (name_change, dict_of (zip final_keys final_key_status), changed)))))))"

subsection \<open>create_group, delete_group, update_group\<close>

definition managed_policies_msg :: "pystr \<Rightarrow> string" where
  "managed_policies_msg name =
     ''All inline polices have been removed. Though it appearsthat '' @ str_py name @
     '' has Managed Polices. This is not currently supported by boto. Please detach the polices through the console and try again.''"

text \<open>
  \<open>create_group\<close>, \<open>delete_group\<close> and \<open>update_group\<close> take \<open>module=None\<close> by default, and
  \<open>main\<close> calls them without \<open>module\<close>. \<open>module.fail_json(...)\<close> on \<open>None\<close> raises
  \<open>AttributeError\<close> before any result is printed; \<open>has_module\<close> says whether the caller
  passed the module.
\<close>

definition module_fail_json :: "bool \<Rightarrow> bool option \<Rightarrow> string \<Rightarrow> ('s, 'a) prog" where
  "module_fail_json has_module changed msg =
     (if has_module then fail_json changed msg else raise AttributeError)"

definition create_group ::
  "'s provider \<Rightarrow> bool \<Rightarrow> pystr \<Rightarrow> pystr \<Rightarrow> ('s, pystr \<times> bool) prog" where
  "create_group p has_module name path =
     bnd (try_boto (bnd (iam p (CreateGroup name path)) (\<lambda>r. obj_of r))
            (\<lambda>em tx. module_fail_json has_module (Some False) tx))
       (\<lambda>g. ret (name, True))"

definition delete_group :: "'s provider \<Rightarrow> bool \<Rightarrow> pystr \<Rightarrow> ('s, bool \<times> pystr) prog" where
  "delete_group p has_module name =
     bnd (try_boto
            (bnd (iam_do p (DeleteGroup name)) (\<lambda>u. ret True))
            (\<lambda>em tx.
               if contains ''must detach all policies first'' (boto_exception em tx)
               then bnd (iam p (GetAllGroupPolicies name)) (\<lambda>r.
                    bnd (names_of r) (\<lambda>policy_names.
                    bnd (for_each (\<lambda>policy. iam_do p (DeleteGroupPolicy name policy)) policy_names) (\<lambda>u.
                    try_boto
                      (bnd (iam_do p (DeleteGroup name)) (\<lambda>u. ret True))
                      (\<lambda>em' tx'.
                         if contains ''must detach all policies first'' (boto_exception em' tx')
                         then module_fail_json has_module (Some False) (managed_policies_msg name)
                         else module_fail_json has_module (Some False) tx'))))
               else ret False))
       (\<lambda>changed. ret (changed, name))"

text \<open>The one \<open>try\<close> of \<open>update_group\<close>, cut where \<open>changed\<close> changes, so that each
  handler reports the value \<open>changed\<close> has at the fault.\<close>

definition update_group ::
  "'s provider \<Rightarrow> bool \<Rightarrow> pystr \<Rightarrow> pystr \<Rightarrow> pystr
     \<Rightarrow> ('s, bool \<times> pystr \<times> pystr \<times> string) prog" where
  "update_group p has_module name new_name new_path =
     bnd (try_boto (bnd (iam p (GetGroup name)) (\<lambda>r. path_of r))
            (\<lambda>em tx. module_fail_json has_module (Some False) tx)) (\<lambda>current_group_path.
     bnd (try_boto
            (if truthy new_path \<and> Some current_group_path \<noteq> new_path
             then bnd (iam_do p (UpdateGroup name None new_path)) (\<lambda>u. ret True)
             else ret False)
            (\<lambda>em tx. module_fail_json has_module (Some False) tx)) (\<lambda>changed.
     bnd (try_boto
            (if truthy new_name \<and> name \<noteq> new_name
             then bnd (iam_do p (UpdateGroup name new_name new_path)) (\<lambda>u. ret (True, new_name))
             else ret (changed, name))
            (\<lambda>em tx. module_fail_json has_module (Some changed) tx)) (\<lambda>(changed', name').
     ret (changed', name', new_path, current_group_path))))"

subsection \<open>create_role, delete_role\<close>

definition create_role ::
  "'s provider \<Rightarrow> pystr \<Rightarrow> pystr \<Rightarrow> string list \<Rightarrow> string list \<Rightarrow> ('s, bool \<times> string list) prog" where
  "create_role p name path role_list prof_list =
     (let changed = (name \<notin> Some ` set role_list) in
      bnd (try_boto
             (if name \<notin> Some ` set role_list
              then bnd (iam p (CreateRole name path)) (\<lambda>r.
                   bnd (obj_of r) (\<lambda>role_name.
                   if name \<notin> Some ` set prof_list
                   then bnd (iam_do p (CreateInstanceProfile name path)) (\<lambda>u.
                        iam_do p (AddRoleToInstanceProfile name name))
                   else ret ()))
              else ret ())
             (\<lambda>em tx. fail_json (Some changed) tx)) (\<lambda>u.
      bnd (iam p ListRoles) (\<lambda>r.
      bnd (names_of r) (\<lambda>updated_role_list.
      ret (changed, updated_role_list)))))"

text \<open>In \<open>delete_role\<close> the second \<open>delete_role\<close> call sits in the handler of the first,
  beside the \<open>if\<close> on the message: it is issued after any fault of the first.\<close>

definition delete_role ::
  "'s provider \<Rightarrow> pystr \<Rightarrow> string list \<Rightarrow> string list \<Rightarrow> ('s, bool \<times> string list) prog" where
  "delete_role p name role_list prof_list =
     bnd (try_boto
            (if name \<in> Some ` set role_list
             then bnd (iam p (ListInstanceProfilesForRole name)) (\<lambda>r.
                  bnd (names_of r) (\<lambda>cur_ins_prof.
                  bnd (for_each (\<lambda>profile. iam_do p (RemoveRoleFromInstanceProfile profile name))
                         cur_ins_prof) (\<lambda>u.
                  try_boto
                    (bnd (iam_do p (DeleteRole name)) (\<lambda>u. ret True))
                    (\<lambda>em tx.
                       bnd (if contains ''must detach all policies first'' (boto_exception em tx)
                            then bnd (iam p (ListRolePolicies name)) (\<lambda>r.
                                 bnd (names_of r) (\<lambda>policy_names.
                                 for_each (\<lambda>policy. iam_do p (DeleteRolePolicy name policy)) policy_names))
                            else ret ()) (\<lambda>u.
                       try_boto
                         (bnd (iam_do p (DeleteRole name)) (\<lambda>u. ret True))
                         (\<lambda>em' tx'.
                            if contains ''must detach all policies first'' (boto_exception em' tx')
                            then fail_json (Some False) (managed_policies_msg name)
                            else fail_json (Some False) tx'))))))
             else ret False)
            (\<lambda>em tx. fail_json (Some False) tx)) (\<lambda>changed.
     bnd (try_boto
            (for_each (\<lambda>prof. if name = Some prof then iam_do p (DeleteInstanceProfile name) else ret ())
               prof_list)
            (\<lambda>em tx. fail_json (Some changed) tx)) (\<lambda>u.
     bnd (iam p ListRoles) (\<lambda>r.
     bnd (names_of r) (\<lambda>updated_role_list.
     ret (changed, updated_role_list)))))"

subsection \<open>main\<close>

datatype iam_type = User | Group | Role

datatype state = Present | Absent | Update

text \<open>\<open>module.params\<close>, after the host has checked the choices and the types.\<close>

record params =
  arg_iam_type :: iam_type
  arg_groups :: "string list option"
  arg_state :: state
  arg_password :: pystr
  arg_update_password :: string
  arg_access_key_state :: pystr
  arg_access_key_ids :: "string list option"
  arg_key_count :: int
  arg_name :: pystr
  arg_new_name :: pystr
  arg_path :: pystr
  arg_new_path :: pystr

text \<open>
  Lines 550-573, the checks before the connection is made. \<open>key_ids\<close> is a local of
  \<open>main\<close> assigned on line 556, after line 553 reads it: once \<open>any([...])\<close> is true,
  \<open>not key_ids\<close> is evaluated and raises \<open>UnboundLocalError\<close>. Returns the lower-cased
  \<open>key_state\<close> and \<open>key_ids\<close>. \<open>module.params.get('access_key_id')\<close> names no parameter
  and is \<open>None\<close>.
\<close>

definition validate :: "params \<Rightarrow> ('s, pystr \<times> string list option) prog" where
  "validate prm =
     bnd (if truthy (arg_access_key_state prm)
          then (let key_state = Some (lower (str_py (arg_access_key_state prm))) in
                if contains ''active'' (str_py key_state) \<or> contains ''inactive'' (str_py key_state)
                then raise (UnboundLocalError ''key_ids'')
                else ret key_state)
          else ret (arg_access_key_state prm)) (\<lambda>key_state.
     bnd (if arg_iam_type prm = User \<and> arg_password prm \<noteq> None then ret ()
          else if arg_iam_type prm \<noteq> User \<and> arg_password prm \<noteq> None
          then fail_json None ''a password is being specified when the iam_type is not user. Check parameters''
          else ret ()) (\<lambda>u.
     bnd (if arg_iam_type prm \<noteq> User \<and> arg_access_key_state prm \<noteq> None
          then fail_json None ''the IAM type must be user, when IAM access keys are being modified. Check parameters''
          else ret ()) (\<lambda>u.
     bnd (if arg_iam_type prm = Role \<and> arg_state prm = Update
          then fail_json (Some False) ''iam_type: role, cannot currently be updated, please specificy present or absent''
          else ret ()) (\<lambda>u.
     ret (key_state, arg_access_key_ids prm)))))"

text \<open>Lines 588-606: the inventory, read once.\<close>

record inventory =
  orig_group_list :: "string list"
  orig_user_list :: "string list"
  orig_role_list :: "string list"
  orig_prof_list :: "string list"

definition fetch_inventory :: "'s provider \<Rightarrow> ('s, inventory) prog" where
  "fetch_inventory p =
     try_boto
       (bnd (iam p GetAllGroups) (\<lambda>r. bnd (names_of r) (\<lambda>gl.
        bnd (iam p GetAllUsers) (\<lambda>r. bnd (names_of r) (\<lambda>ul.
        bnd (iam p ListRoles) (\<lambda>r. bnd (names_of r) (\<lambda>rl.
        bnd (iam p ListInstanceProfiles) (\<lambda>r. bnd (names_of r) (\<lambda>ap.
        ret \<lparr>orig_group_list = gl, orig_user_list = ul, orig_role_list = rl, orig_prof_list = ap\<rparr>)))))))))
       (\<lambda>em tx. fail_json None em)"

text \<open>Python's truth value of a list parameter, and the list it iterates.\<close>

fun truthy_list :: "string list option \<Rightarrow> bool" where
  "truthy_list None = False"
| "truthy_list (Some xs) = (xs \<noteq> [])"

fun list_py :: "string list option \<Rightarrow> string list" where
  "list_py None = []"
| "list_py (Some xs) = xs"

text \<open>
  Lines 608-679, \<open>iam_type == 'user'\<close>. \<open>orig_name\<close> is assigned only after a rename
  made by this run; two of the \<open>exit_json\<close> calls read it. When no branch of the
  \<open>if\<close>/\<open>elif\<close> chain applies, \<open>main\<close> ends without a result.
\<close>

definition user_branch ::
  "'s provider \<Rightarrow> params \<Rightarrow> pystr \<Rightarrow> string list option \<Rightarrow> inventory \<Rightarrow> ('s, unit) prog" where
  "user_branch p prm key_state key_ids ivt =
     (let name = arg_name prm; new_name = arg_new_name prm; st = arg_state prm;
          groups = arg_groups prm; been_updated = False;
          user_exists = list_ex (\<lambda>n. Some n = name \<or> Some n = new_name) (orig_user_list ivt)
      in
      bnd (if user_exists
           then bnd (iam p (GetUser name)) (\<lambda>r.
                bnd (path_of r) (\<lambda>current_path.
                if \<not> truthy (arg_new_path prm) \<and> Some current_path \<noteq> arg_path prm
                then ret (arg_path prm, Some current_path)
                else ret (arg_new_path prm, arg_path prm)))
           else ret (arg_new_path prm, arg_path prm)) (\<lambda>(new_path, path).
      if st = Present \<and> \<not> user_exists \<and> \<not> truthy new_name
      then bnd (create_user p name (arg_password prm) path key_state (arg_key_count prm)) (\<lambda>(meta, changed).
           bnd (iam p (GetAllAccessKeys name)) (\<lambda>r.
           bnd (keys_of r) (\<lambda>keys.
           bnd (if truthy_list groups
                then bnd (set_users_groups p name (list_py groups) been_updated new_name)
                       (\<lambda>(user_groups, changed'). ret changed')
                else ret changed) (\<lambda>changed'.
           exit_json (PyBool changed')))))
      else if (st = Present \<or> st = Update) \<and> user_exists
      then (let password = (if arg_update_password prm = ''on_create'' then None else arg_password prm);
                been_updated' = (name \<notin> Some ` set (orig_user_list ivt)
                                 \<and> new_name \<in> Some ` set (orig_user_list ivt))
            in
            bnd (update_user p name new_name new_path key_state (arg_key_count prm) key_ids
                   password been_updated') (\<lambda>(name_change, key_list, user_changed).
            let orig_name = (if name_change \<and> truthy new_name then Some name else None);
                name' = (if name_change \<and> truthy new_name then new_name else name)
            in
            bnd (if truthy_list groups
                 then bnd (set_users_groups p name' (list_py groups) been_updated' new_name)
                        (\<lambda>(user_groups, groups_changed).
                           ret (if groups_changed = user_changed then groups_changed else True))
                 else ret user_changed) (\<lambda>changed.
            if truthy new_name \<and> truthy new_path
            then (case orig_name of None \<Rightarrow> raise (UnboundLocalError ''orig_name'')
                  | Some n \<Rightarrow> exit_json (PyBool changed))
            else if truthy new_name \<and> \<not> truthy new_path \<and> \<not> been_updated'
            then (case orig_name of None \<Rightarrow> raise (UnboundLocalError ''orig_name'')
                  | Some n \<Rightarrow> exit_json (PyBool changed))
            else exit_json (PyBool changed))))
      else if st = Update \<and> \<not> user_exists
      then fail_json None (''The user '' @ str_py name @ '' does not exit. No update made.'')
      else if st = Absent
      then (if user_exists
            then try_exception
                   (bnd (set_users_groups p name [] False None) (\<lambda>g.
                    bnd (delete_user p name) (\<lambda>(del_meta, name', changed).
                    exit_json (PyBool changed))))
                   (\<lambda>ex. fail_json (Some False) (str_exn ex))
            else exit_json (PyBool False))
      else ret ()))"

text \<open>
  Lines 681-718, \<open>iam_type == 'group'\<close>. The three group functions are called with
  \<open>iam\<close>, \<open>name\<close> and the paths only, so without the module. \<open>delete_group\<close> returns
  \<open>(changed, name)\<close> and line 715 unpacks it as \<open>removed_group, changed\<close>, so \<open>exit_json\<close>
  gets the name as \<open>changed\<close>.
\<close>

definition group_branch :: "'s provider \<Rightarrow> params \<Rightarrow> inventory \<Rightarrow> ('s, unit) prog" where
  "group_branch p prm ivt =
     (let name = arg_name prm; st = arg_state prm; changed = False;
          group_exists = (name \<in> Some ` set (orig_group_list ivt))
      in
      if st = Present \<and> \<not> group_exists
      then bnd (create_group p False name (arg_path prm)) (\<lambda>(new_group, changed').
           exit_json (PyBool changed'))
      else if (st = Present \<or> st = Update) \<and> group_exists
      then bnd (update_group p False name (arg_new_name prm) (arg_new_path prm))
             (\<lambda>(changed', updated_name, updated_path, cur_path). exit_json (PyBool changed'))
      else if st = Update \<and> \<not> group_exists
      then fail_json (Some changed)
             (''Update Failed. Group '' @ str_py name @ '' doesn't seem to exit!'')
      else if st = Absent
      then (if name \<in> Some ` set (orig_group_list ivt)
            then bnd (delete_group p False name) (\<lambda>(removed_group, changed'). exit_json (PyStr changed'))
            else exit_json (PyBool changed))
      else ret ())"

text \<open>Lines 720-731, \<open>iam_type == 'role'\<close>.\<close>

definition role_branch :: "'s provider \<Rightarrow> params \<Rightarrow> inventory \<Rightarrow> ('s, unit) prog" where
  "role_branch p prm ivt =
     bnd (case arg_state prm of
            Present \<Rightarrow> create_role p (arg_name prm) (arg_path prm) (orig_role_list ivt) (orig_prof_list ivt)
          | Absent \<Rightarrow> delete_role p (arg_name prm) (orig_role_list ivt) (orig_prof_list ivt)
          | Update \<Rightarrow> fail_json (Some False) ''Role update not currently supported by boto.'')
       (\<lambda>(changed, role_list). exit_json (PyBool changed))"

text \<open>The reconciliation proper: what \<open>main\<close> does once it holds the inventory.\<close>

definition reconcile ::
  "'s provider \<Rightarrow> params \<Rightarrow> pystr \<Rightarrow> string list option \<Rightarrow> inventory \<Rightarrow> ('s, unit) prog" where
  "reconcile p prm key_state key_ids ivt =
     (case arg_iam_type prm of
        User \<Rightarrow> user_branch p prm key_state key_ids ivt
      | Group \<Rightarrow> group_branch p prm ivt
      | Role \<Rightarrow> role_branch p prm ivt)"

text \<open>\<open>main\<close>, with boto installed and the connection made (both outside the module).\<close>

definition main :: "'s provider \<Rightarrow> params \<Rightarrow> ('s, unit) prog" where
  "main p prm =
     bnd (validate prm) (\<lambda>(key_state, key_ids).
     bnd (fetch_inventory p) (\<lambda>ivt.
     reconcile p prm key_state key_ids ivt))"

subsection \<open>Providers to run the module against\<close>

text \<open>A scripted provider: its state is the list of answers still to give, one per
  call, whatever the call; once the script is used up it answers with an empty object.\<close>

fun scripted :: "resp list provider" where
  "scripted [] c = (Obj [], [])"
| "scripted (r # rs) c = (r, rs)"

text \<open>A provider that holds the group membership of one user: it lists, adds and
  removes groups and answers every other call with an empty object.\<close>

fun membership_provider :: "string list provider" where
  "membership_provider gs (GetGroupsForUser n) = (Names gs, gs)"
| "membership_provider gs (AddUserToGroup g n) = (Obj [], if g \<in> set gs then gs else gs @ [g])"
| "membership_provider gs (RemoveUserFromGroup g n) = (Obj [], removeAll g gs)"
| "membership_provider gs c = (Obj [], gs)"

subsection \<open>Inputs and measures used in the properties\<close>

text \<open>The parameters with the defaults of \<open>argument_spec\<close>; \<open>iam_type\<close>, \<open>state\<close> and
  \<open>name\<close> are set by each use.\<close>

definition default_params :: params where
  "default_params =
     \<lparr>arg_iam_type = User, arg_groups = None, arg_state = Present, arg_password = None,
      arg_update_password = ''always'', arg_access_key_state = None, arg_access_key_ids = None,
      arg_key_count = 1, arg_name = None, arg_new_name = None, arg_path = Some ''/'',
      arg_new_path = None\<rparr>"

text \<open>What a list of calls does to the set of groups a user is in: an add puts the
  group in, a remove takes it out, other calls leave the set as it is.\<close>

fun membership_after :: "call list \<Rightarrow> string set \<Rightarrow> string set" where
  "membership_after [] M = M"
| "membership_after (AddUserToGroup g n # cs) M = membership_after cs (insert g M)"
| "membership_after (RemoveUserFromGroup g n # cs) M = membership_after cs (M - {g})"
| "membership_after (c # cs) M = membership_after cs M"

text \<open>Calls that create and calls that delete an access key, and the number of
  create calls in a list of calls.\<close>

fun is_create_key :: "call \<Rightarrow> bool" where
  "is_create_key (CreateAccessKey n) = True"
| "is_create_key c = False"

fun is_delete_key :: "call \<Rightarrow> bool" where
  "is_delete_key (DeleteAccessKey k n) = True"
| "is_delete_key c = False"

definition creates :: "call list \<Rightarrow> nat" where
  "creates tr = length (filter is_create_key tr)"

fun is_ret :: "'a res \<Rightarrow> bool" where
  "is_ret (Ret a) = True"
| "is_ret r = False"

text \<open>
  What a program does about access keys, whatever the provider answers: it deletes no
  key, issues at most \<open>j\<close> create calls, and exactly \<open>j\<close> when it returns.
\<close>

definition key_effect :: "nat \<Rightarrow> ('s, 'a) prog \<Rightarrow> bool" where
  "key_effect j m = (\<forall>s tr r s' tr'. m (s, tr) = (r, (s', tr')) \<longrightarrow>
     (\<exists>new. tr' = tr @ new \<and> \<not> list_ex is_delete_key new \<and> creates new \<le> j
            \<and> (is_ret r \<longrightarrow> creates new = j)))"

text \<open>A provider that never faults and never changes: one user bob at path \<open>/\<close> with
  key K1 in group g1, one group g1, one role r1 with its instance profile.\<close>

fun steady :: "unit provider" where
  "steady u GetAllGroups = (Names [''g1''], u)"
| "steady u GetAllUsers = (Names [''bob''], u)"
| "steady u ListRoles = (Names [''r1''], u)"
| "steady u ListInstanceProfiles = (Names [''r1''], u)"
| "steady u (GetUser n) = (PathOf ''/'', u)"
| "steady u (GetGroup n) = (PathOf ''/'', u)"
| "steady u (GetAllAccessKeys n) = (Keys [(''K1'', ''Active'')], u)"
| "steady u (GetGroupsForUser n) = (Names [''g1''], u)"
| "steady u (GetAllUserPolicies n) = (Names [], u)"
| "steady u (GetAllGroupPolicies n) = (Names [], u)"
| "steady u (ListRolePolicies n) = (Names [], u)"
| "steady u (ListInstanceProfilesForRole n) = (Names [], u)"
| "steady u c = (Obj [], u)"

text \<open>An inventory read from an account that also has an instance profile r2 without a role.\<close>

definition snapshot :: inventory where
  "snapshot = \<lparr>orig_group_list = [''g1''], orig_user_list = [''bob''], orig_role_list = [''r1''],
               orig_prof_list = [''r1'', ''r2'']\<rparr>"

text \<open>A program that returns \<open>v\<close>, or leaves with exit \<open>x\<close>, from every state of the
  provider.\<close>

definition returns :: "('s, 'a) prog \<Rightarrow> 'a \<Rightarrow> bool" where
  "returns m v = (\<forall>w. \<exists>w'. m w = (Ret v, w'))"

definition halts_with :: "('s, 'a) prog \<Rightarrow> exit \<Rightarrow> bool" where
  "halts_with m x = (\<forall>w. \<exists>w'. m w = (Halt x, w'))"

section \<open>Properties\<close>

subsection \<open>Deleting a user\<close>

text \<open>
  Claim C1 (delete keys, delete the login credential with "no login profile" benign,
  delete the user, and on attached inline policies delete them and retry once) does
  not hold of \<open>delete_user\<close>. First run: user bob has no key and no login profile, and
  the provider refuses the deletion because policies are attached; the function fails
  with "delete failed ..." after the one \<open>delete_user\<close> call, and neither lists the
  inline policies nor retries. Second run: bob has one key and a login profile; the
  function deletes the key, reads the login profile and returns \<open>changed = True\<close>
  without deleting the login profile or the user.
\<close>

theorem delete_user_no_policy_retry:
  "delete_user scripted (Some ''bob'')
     ([Keys [], Fault ''Cannot find Login Profile for User bob'' ''404 Not Found'',
       Fault ''Cannot delete entity, must detach all policies first.'' ''409 Conflict''], [])
   = (Halt (FailJson (Some False) ''delete failed 409 Conflict''), [],
      [GetAllAccessKeys (Some ''bob''), GetLoginProfiles (Some ''bob''), DeleteUser (Some ''bob'')])
   \<and> delete_user scripted (Some ''bob'')
     ([Keys [(''K1'', ''Active'')], Obj [], Obj ''profile''], [])
   = (Ret ([], Some ''bob'', True), [],
      [GetAllAccessKeys (Some ''bob''), DeleteAccessKey ''K1'' (Some ''bob''),
       GetLoginProfiles (Some ''bob'')])"
  by code_simp

subsection \<open>Validation of the access-key state\<close>

text \<open>
  Claim C5 (state active or inactive without key ids fails with the "At least one
  access key has to be defined" message, and validation raises no unrelated error)
  does not hold of \<open>main\<close>: with \<open>access_key_state\<close> active or inactive, with or without
  key ids, \<open>main\<close> ends in \<open>UnboundLocalError\<close> for \<open>key_ids\<close>, before any provider call.
\<close>

theorem active_key_state_unbound_key_ids:
  "main p (default_params\<lparr>arg_name := Some ''bob'', arg_access_key_state := Some ''active''\<rparr>) (s, tr)
     = (Raise (UnboundLocalError ''key_ids''), (s, tr))
   \<and> main p (default_params\<lparr>arg_name := Some ''bob'', arg_access_key_state := Some ''Inactive'',
                arg_access_key_ids := Some [''K1'']\<rparr>) (s, tr)
     = (Raise (UnboundLocalError ''key_ids''), (s, tr))"
  by (simp add: main_def validate_def default_params_def bnd_def ret_def raise_def
        lower_def lower_char_def)

subsection \<open>Activating, deactivating and removing listed keys\<close>

text \<open>
  Claim C6 (for a listed key that exists, one activate/deactivate call exactly when
  that key's own status differs from the requested state, and with remove the key is
  deleted whatever its status) does not hold of \<open>main\<close>. The loop of lines 310-318
  runs over every current key and never compares \<open>current_key\<close> with \<open>access_key\<close>.
  First run: bob has the keys K1 and K2, both Active, and remove is requested for K1;
  before the delete, two \<open>update_access_key\<close> calls with status Remove are issued for
  K1, one for each current key. Second run: bob has only K1 and the provider refuses
  the status Remove; the run fails with \<open>changed = False\<close> and K1 is not deleted.
\<close>

theorem remove_key_issues_status_updates:
  "main scripted
     (default_params\<lparr>arg_name := Some ''bob'', arg_access_key_state := Some ''remove'',
        arg_access_key_ids := Some [''K1'']\<rparr>)
     ([Names [], Names [''bob''], Names [], Names [], PathOf ''/'',
       Keys [(''K1'', ''Active''), (''K2'', ''Active'')],
       Keys [(''K1'', ''Active''), (''K2'', ''Active'')],
       Obj [], Obj [], Obj [],
       Keys [(''K2'', ''Active'')], Keys [(''K2'', ''Active'')]], [])
   = (Halt (ExitJson (PyBool True)), [],
      [GetAllGroups, GetAllUsers, ListRoles, ListInstanceProfiles, GetUser (Some ''bob''),
       GetAllAccessKeys (Some ''bob''), GetAllAccessKeys (Some ''bob''),
       UpdateAccessKey ''K1'' ''Remove'' (Some ''bob''),
       UpdateAccessKey ''K1'' ''Remove'' (Some ''bob''),
       DeleteAccessKey ''K1'' (Some ''bob''),
       GetAllAccessKeys (Some ''bob''), GetAllAccessKeys (Some ''bob'')])
   \<and> main scripted
     (default_params\<lparr>arg_name := Some ''bob'', arg_access_key_state := Some ''remove'',
        arg_access_key_ids := Some [''K1'']\<rparr>)
     ([Names [], Names [''bob''], Names [], Names [], PathOf ''/'',
       Keys [(''K1'', ''Active'')], Keys [(''K1'', ''Active'')],
       Fault ''Value Remove at status failed to satisfy constraint'' ''400 ValidationError''], [])
   = (Halt (FailJson (Some False) ''400 ValidationError''), [],
      [GetAllGroups, GetAllUsers, ListRoles, ListInstanceProfiles, GetUser (Some ''bob''),
       GetAllAccessKeys (Some ''bob''), GetAllAccessKeys (Some ''bob''),
       UpdateAccessKey ''K1'' ''Remove'' (Some ''bob'')])"
  by code_simp

subsection \<open>The changed flag of a failure\<close>

text \<open>
  Claim C8 (a failure reports \<open>changed = true\<close> once a mutating call has succeeded) does
  not hold of \<open>update_user\<close>: user old is renamed to new, the \<open>update_user\<close> call
  succeeds, then \<open>create_access_key\<close> faults, and \<open>main\<close> fails with \<open>changed = False\<close>.
  No call undoes the rename.
\<close>

theorem failure_after_rename_reports_unchanged:
  "main scripted
     (default_params\<lparr>arg_name := Some ''old'', arg_new_name := Some ''new'', arg_state := Update,
        arg_access_key_state := Some ''create''\<rparr>)
     ([Names [], Names [''old''], Names [], Names [], PathOf ''/'', Keys [], Keys [], PathOf ''/'',
       Obj [], Fault ''Rate exceeded'' ''400 Throttling''], [])
   = (Halt (FailJson (Some False) ''400 Throttling''), [],
      [GetAllGroups, GetAllUsers, ListRoles, ListInstanceProfiles, GetUser (Some ''old''),
       GetAllAccessKeys (Some ''old''), GetAllAccessKeys (Some ''old''), GetUser (Some ''old''),
       UpdateUser (Some ''old'') (Some ''new'') None, CreateAccessKey (Some ''old'')])"
  by code_simp

subsection \<open>Adding groups to a user without groups\<close>

text \<open>
  Claim C10 (with no current group, a fault of an add other than "group not found"
  aborts the run and reaches the caller) does not hold of \<open>set_users_groups\<close>: the
  first add faults with a throttling error, the loop goes on to the next group, and
  the function returns \<open>changed = True\<close>.
\<close>

theorem set_users_groups_absorbs_fault:
  "set_users_groups scripted (Some ''bob'') [''g1'', ''g2''] False None
     ([Names [], Fault ''Rate exceeded'' ''400 Throttling'', Obj []], [])
   = (Ret ([''g1'', ''g2''], True), [],
      [GetGroupsForUser (Some ''bob''), AddUserToGroup ''g1'' (Some ''bob''),
       AddUserToGroup ''g2'' (Some ''bob'')])"
  by code_simp

subsection \<open>Running an update again after a rename\<close>

text \<open>
  Claim C4 (a second update with the same \<open>new_name\<close> finds the user under \<open>new_name\<close>
  and issues no further \<open>update_user\<close> call) does not hold of \<open>main\<close>. The user was
  renamed from old to new. With an inventory that lists only old, or only new, the
  unguarded \<open>get_user(name)\<close> of line 613 asks for old and its fault ends \<open>main\<close>. If
  the provider still answers for old, the key listing for old fails the run, since the
  fallback to \<open>new_name\<close> needs \<open>been_updated\<close>. With an inventory that lists only new
  and a provider that answers line 613, an \<open>update_user\<close> call is issued again and the
  run reports \<open>changed = True\<close>.
\<close>

theorem rerun_after_rename_fails_or_updates:
  "main scripted
     (default_params\<lparr>arg_name := Some ''old'', arg_new_name := Some ''new'', arg_state := Update\<rparr>)
     ([Names [], Names [''old''], Names [], Names [],
       Fault ''The user with name old cannot be found.'' ''404 Not Found''], [])
   = (Raise (BotoServerError ''The user with name old cannot be found.'' ''404 Not Found''), [],
      [GetAllGroups, GetAllUsers, ListRoles, ListInstanceProfiles, GetUser (Some ''old'')])
   \<and> main scripted
     (default_params\<lparr>arg_name := Some ''old'', arg_new_name := Some ''new'', arg_state := Update\<rparr>)
     ([Names [], Names [''new''], Names [], Names [],
       Fault ''The user with name old cannot be found.'' ''404 Not Found''], [])
   = (Raise (BotoServerError ''The user with name old cannot be found.'' ''404 Not Found''), [],
      [GetAllGroups, GetAllUsers, ListRoles, ListInstanceProfiles, GetUser (Some ''old'')])
   \<and> main scripted
     (default_params\<lparr>arg_name := Some ''old'', arg_new_name := Some ''new'', arg_state := Update\<rparr>)
     ([Names [], Names [''old''], Names [], Names [], PathOf ''/'',
       Fault ''The user with name old cannot be found.'' ''404 Not Found''], [])
   = (Halt (FailJson (Some False) ''404 Not Found''), [],
      [GetAllGroups, GetAllUsers, ListRoles, ListInstanceProfiles, GetUser (Some ''old''),
       GetAllAccessKeys (Some ''old'')])
   \<and> main scripted
     (default_params\<lparr>arg_name := Some ''old'', arg_new_name := Some ''new'', arg_state := Update\<rparr>)
     ([Names [], Names [''new''], Names [], Names [], PathOf ''/'', Keys [], Keys [], PathOf ''/'',
       Obj [], Keys [], Keys []], [])
   = (Halt (ExitJson (PyBool True)), [],
      [GetAllGroups, GetAllUsers, ListRoles, ListInstanceProfiles, GetUser (Some ''old''),
       GetAllAccessKeys (Some ''new''), GetAllAccessKeys (Some ''new''), GetUser (Some ''new''),
       UpdateUser (Some ''new'') None None, GetAllAccessKeys (Some ''new''),
       GetAllAccessKeys (Some ''new'')])"
  by code_simp

subsection \<open>Calls that do not fault\<close>

lemma iam_ok: "\<not> is_fault (fst (p s c)) \<Longrightarrow> iam p c (s, tr) = (Ret (fst (p s c)), (snd (p s c), tr @ [c]))"
  by (cases "p s c"; cases "fst (p s c)") (auto simp: iam_def)

lemma iam_do_ok: "\<not> is_fault (fst (p s c)) \<Longrightarrow> iam_do p c (s, tr) = (Ret (), (snd (p s c), tr @ [c]))"
  by (simp add: iam_do_def bnd_def iam_ok ret_def)

lemma for_each_iam_do:
  "\<forall>s' x. \<not> is_fault (fst (p s' (f x))) \<Longrightarrow>
   \<exists>s'. for_each (\<lambda>x. iam_do p (f x)) xs (s, tr) = (Ret (), (s', tr @ map f xs))"
proof (induction xs arbitrary: s tr)
  case Nil
  then show ?case by (simp add: ret_def)
next
  case (Cons x xs)
  from Cons.IH [OF Cons.prems, of "snd (p s (f x))" "tr @ [f x]"]
  obtain s' where "for_each (\<lambda>x. iam_do p (f x)) xs (snd (p s (f x)), tr @ [f x]) = (Ret (), s', (tr @ [f x]) @ map f xs)"
    by blast
  with Cons.prems show ?case
    by (simp add: bnd_def iam_do_ok)
qed

lemma add_group_guarded_ok:
  "\<not> is_fault (fst (p s (AddUserToGroup g nm))) \<Longrightarrow>
   add_group_guarded p nm g (s, tr) = (Ret (), (snd (p s (AddUserToGroup g nm)), tr @ [AddUserToGroup g nm]))"
  by (simp add: add_group_guarded_def try_boto_def iam_do_ok)

lemma for_each_add_group_guarded:
  "\<forall>s' g. \<not> is_fault (fst (p s' (AddUserToGroup g nm))) \<Longrightarrow>
   \<exists>s'. for_each (add_group_guarded p nm) gs (s, tr) = (Ret (), (s', tr @ map (\<lambda>g. AddUserToGroup g nm) gs))"
proof (induction gs arbitrary: s tr)
  case Nil
  then show ?case by (simp add: ret_def)
next
  case (Cons g gs)
  from Cons.IH [OF Cons.prems, of "snd (p s (AddUserToGroup g nm))" "tr @ [AddUserToGroup g nm]"]
  obtain s' where "for_each (add_group_guarded p nm) gs (snd (p s (AddUserToGroup g nm)), tr @ [AddUserToGroup g nm])
     = (Ret (), s', (tr @ [AddUserToGroup g nm]) @ map (\<lambda>g. AddUserToGroup g nm) gs)"
    by blast
  with Cons.prems show ?case
    by (simp add: bnd_def add_group_guarded_ok)
qed

lemma membership_after_adds:
  "membership_after (map (\<lambda>g. AddUserToGroup g nm) xs @ cs) M = membership_after cs (M \<union> set xs)"
  by (induction xs arbitrary: M) auto

lemma membership_after_adds_only:
  "membership_after (map (\<lambda>g. AddUserToGroup g nm) xs) M = M \<union> set xs"
  using membership_after_adds [of nm xs "[]" M] by simp

lemma membership_after_removes:
  "membership_after (map (\<lambda>g. RemoveUserFromGroup g nm) xs) M = M - set xs"
  by (induction xs arbitrary: M) auto

lemma set_frozenset_difference: "set (frozenset_difference xs ys) = set xs - set ys"
  by (auto simp: frozenset_difference_def)

subsection \<open>Group membership\<close>

text \<open>
  Claim C2. Let the provider list the groups \<open>C\<close> for the user and never fault on an
  add or a remove. For every desired list \<open>D\<close>, \<open>set_users_groups\<close> returns, having
  issued after the listing first add calls for exactly the groups of \<open>D\<close> not in
  \<open>C\<close>, then remove calls for exactly the groups of \<open>C\<close> not in \<open>D\<close>; these calls
  turn the membership \<open>C\<close> into exactly \<open>D\<close>; and \<open>changed\<close> is true exactly when one
  of the two differences is not empty.
\<close>

theorem membership_diff:
  assumes nm: "nm = (if updated then new_name else name)"
    and cur: "fst (p s (GetGroupsForUser nm)) = Names C"
    and adds: "\<forall>s' g. \<not> is_fault (fst (p s' (AddUserToGroup g nm)))"
    and rems: "\<forall>s' g. \<not> is_fault (fst (p s' (RemoveUserFromGroup g nm)))"
  shows "\<exists>s' to_add to_remove.
           set_users_groups p name D updated new_name (s, tr)
             = (Ret (D, set D - set C \<union> (set C - set D) \<noteq> {}),
                (s', tr @ GetGroupsForUser nm # map (\<lambda>g. AddUserToGroup g nm) to_add
                        @ map (\<lambda>g. RemoveUserFromGroup g nm) to_remove))
           \<and> set to_add = set D - set C
           \<and> set to_remove = set C - set D
           \<and> membership_after (map (\<lambda>g. AddUserToGroup g nm) to_add
                                 @ map (\<lambda>g. RemoveUserFromGroup g nm) to_remove) (set C) = set D"
proof -
  let ?s1 = "snd (p s (GetGroupsForUser nm))"
  let ?t1 = "tr @ [GetGroupsForUser nm]"
  let ?rm = "frozenset_difference C D"
  let ?new = "frozenset_difference D C"
  have get: "iam p (GetGroupsForUser nm) (s, tr) = (Ret (Names C), (?s1, ?t1))"
    using iam_ok [of p s "GetGroupsForUser nm" tr] cur by simp
  have chg: "(length ?rm > 0 \<or> length ?new > 0) = (set D - set C \<union> (set C - set D) \<noteq> {})"
    using set_frozenset_difference [of C D] set_frozenset_difference [of D C]
    by (metis Un_empty length_greater_0_conv set_empty sup_commute)
  show ?thesis
  proof (cases "C = []")
    case True
    obtain s' where run: "for_each (add_group_guarded p nm) D (?s1, ?t1)
        = (Ret (), (s', ?t1 @ map (\<lambda>g. AddUserToGroup g nm) D))"
      using for_each_add_group_guarded [OF adds] by blast
    have "set_users_groups p name D updated new_name (s, tr)
        = (Ret (D, set D - set C \<union> (set C - set D) \<noteq> {}),
           (s', tr @ GetGroupsForUser nm # map (\<lambda>g. AddUserToGroup g nm) D
                   @ map (\<lambda>g. RemoveUserFromGroup g nm) []))"
      using get run True chg nm
      by (simp add: set_users_groups_def bnd_def try_boto_def ret_def Let_def)
    moreover have "membership_after (map (\<lambda>g. AddUserToGroup g nm) D
                      @ map (\<lambda>g. RemoveUserFromGroup g nm) []) (set C) = set D"
      using True by (simp add: membership_after_adds_only)
    ultimately show ?thesis using True by (intro exI [of _ s'] exI [of _ D] exI [of _ "[]"]) simp
  next
    case False
    obtain s2 where run1: "for_each (\<lambda>g. iam_do p (AddUserToGroup g nm)) ?new (?s1, ?t1)
        = (Ret (), (s2, ?t1 @ map (\<lambda>g. AddUserToGroup g nm) ?new))"
      using for_each_iam_do [of p "\<lambda>g. AddUserToGroup g nm"] adds by blast
    obtain s3 where run2: "for_each (\<lambda>g. iam_do p (RemoveUserFromGroup g nm)) ?rm
          (s2, ?t1 @ map (\<lambda>g. AddUserToGroup g nm) ?new)
        = (Ret (), (s3, (?t1 @ map (\<lambda>g. AddUserToGroup g nm) ?new) @ map (\<lambda>g. RemoveUserFromGroup g nm) ?rm))"
      using for_each_iam_do [of p "\<lambda>g. RemoveUserFromGroup g nm"] rems by blast
    have "set_users_groups p name D updated new_name (s, tr)
        = (Ret (D, set D - set C \<union> (set C - set D) \<noteq> {}),
           (s3, tr @ GetGroupsForUser nm # map (\<lambda>g. AddUserToGroup g nm) ?new
                   @ map (\<lambda>g. RemoveUserFromGroup g nm) ?rm))"
      using get run1 run2 False chg nm
      by (simp add: set_users_groups_def bnd_def try_boto_def ret_def Let_def)
    moreover have "membership_after (map (\<lambda>g. AddUserToGroup g nm) ?new
                      @ map (\<lambda>g. RemoveUserFromGroup g nm) ?rm) (set C) = set D"
      by (auto simp: membership_after_adds membership_after_removes set_frozenset_difference)
    ultimately show ?thesis
      by (intro exI [of _ s3] exI [of _ ?new] exI [of _ ?rm]) (simp add: set_frozenset_difference)
  qed
qed

theorem membership_diff_witness:
  "\<exists>s' to_add to_remove.
     set_users_groups membership_provider (Some ''bob'') [''b'', ''c''] False None ([''a'', ''b''], [])
       = (Ret ([''b'', ''c''], True),
          (s', GetGroupsForUser (Some ''bob'') # map (\<lambda>g. AddUserToGroup g (Some ''bob'')) to_add
                  @ map (\<lambda>g. RemoveUserFromGroup g (Some ''bob'')) to_remove))
     \<and> set to_add = {''c''} \<and> set to_remove = {''a''}
     \<and> membership_after (map (\<lambda>g. AddUserToGroup g (Some ''bob'')) to_add
                           @ map (\<lambda>g. RemoveUserFromGroup g (Some ''bob'')) to_remove) {''a'', ''b''}
         = {''b'', ''c''}"
  using membership_diff [of "Some ''bob''" False None "Some ''bob''" membership_provider "[''a'', ''b'']"
      "[''a'', ''b'']" "[''b'', ''c'']" "[]"]
  by (simp add: insert_Diff_if)

subsection \<open>Access keys created and deleted\<close>

lemma key_effectI:
  "(\<And>s tr r s' tr'. m (s, tr) = (r, (s', tr')) \<Longrightarrow>
     \<exists>new. tr' = tr @ new \<and> \<not> list_ex is_delete_key new \<and> creates new \<le> j
            \<and> (is_ret r \<longrightarrow> creates new = j)) \<Longrightarrow> key_effect j m"
  unfolding key_effect_def by blast


lemma creates_append [simp]: "creates (xs @ ys) = creates xs + creates ys"
  by (simp add: creates_def)

lemma creates_Nil [simp]: "creates [] = 0"
  by (simp add: creates_def)

lemma key_effect_ret [intro!, simp]: "key_effect 0 (ret a)"
  by (rule key_effectI) (simp add: ret_def)

lemma key_effect_raise [intro!, simp]: "key_effect j (raise e)"
  by (rule key_effectI) (auto simp: raise_def)

lemma key_effect_fail_json [intro!, simp]: "key_effect j (fail_json c msg)"
  by (rule key_effectI) (auto simp: fail_json_def)

lemma key_effect_exit_json [intro!, simp]: "key_effect j (exit_json c)"
  by (rule key_effectI) (auto simp: exit_json_def)








lemma key_effect_names_of [simp]: "key_effect 0 (names_of r)"
  by (cases r) simp_all

lemma key_effect_keys_of [simp]: "key_effect 0 (keys_of r)"
  by (cases r) simp_all

lemma key_effect_path_of [simp]: "key_effect 0 (path_of r)"
  by (cases r) simp_all

lemma key_effect_obj_of [simp]: "key_effect 0 (obj_of r)"
  by (cases r) simp_all






lemma update_keys_while_unfold:
  "update_keys_while p name n q changed =
     (if n > q
      then bnd (iam p (CreateAccessKey name)) (\<lambda>r.
           bnd (obj_of r) (\<lambda>new_key. update_keys_while p name n (q + 1) True))
      else ret changed)"
  by (rule ext) (subst update_keys_while.simps, simp)

















subsection \<open>Absent on a missing resource\<close>

text \<open>
  Claim C7 as stated (absent on a resource that is not in the inventory issues no
  provider call, for every kind) fails. Role r1 is not in the role inventory: after
  the inventory \<open>main\<close> calls \<open>list_roles\<close> again, and when an instance profile r1 is in
  the inventory it also calls \<open>delete_instance_profile\<close>. User eve is not in the user
  inventory but \<open>new_name\<close> bob is: the existence test of line 611 holds and
  \<open>get_user\<close> is called for eve.
\<close>

theorem absent_missing_issues_calls:
  "main scripted (default_params\<lparr>arg_iam_type := Role, arg_state := Absent, arg_name := Some ''r1''\<rparr>)
     ([Names [], Names [], Names [], Names [], Names []], [])
   = (Halt (ExitJson (PyBool False)), [],
      [GetAllGroups, GetAllUsers, ListRoles, ListInstanceProfiles, ListRoles])
   \<and> main scripted (default_params\<lparr>arg_iam_type := Role, arg_state := Absent, arg_name := Some ''r1''\<rparr>)
     ([Names [], Names [], Names [], Names [''r1''], Obj [], Names []], [])
   = (Halt (ExitJson (PyBool False)), [],
      [GetAllGroups, GetAllUsers, ListRoles, ListInstanceProfiles,
       DeleteInstanceProfile (Some ''r1''), ListRoles])
   \<and> main scripted
     (default_params\<lparr>arg_state := Absent, arg_name := Some ''eve'', arg_new_name := Some ''bob''\<rparr>)
     ([Names [], Names [''bob''], Names [], Names [],
       Fault ''The user with name eve cannot be found.'' ''404 Not Found''], [])
   = (Raise (BotoServerError ''The user with name eve cannot be found.'' ''404 Not Found''), [],
      [GetAllGroups, GetAllUsers, ListRoles, ListInstanceProfiles, GetUser (Some ''eve'')])"
  by code_simp

lemma for_each_no_profile:
  "name \<notin> Some ` set prof_list \<Longrightarrow>
   for_each (\<lambda>prof. if name = Some prof then iam_do p (DeleteInstanceProfile name) else ret ())
     prof_list w = (Ret (), w)"
  by (induction prof_list) (auto simp: ret_def bnd_def)

lemma delete_role_nothing_there:
  assumes "name \<notin> Some ` set role_list" and "name \<notin> Some ` set prof_list"
    and "fst (p s ListRoles) = Names rl"
  shows "delete_role p name role_list prof_list (s, tr)
         = (Ret (False, rl), (snd (p s ListRoles), tr @ [ListRoles]))"
proof -
  have "iam p ListRoles (s, tr) = (Ret (Names rl), (snd (p s ListRoles), tr @ [ListRoles]))"
    using iam_ok [of p s ListRoles tr] assms(3) by simp
  with assms(1) show ?thesis
    by (simp add: delete_role_def bnd_def try_boto_def ret_def for_each_no_profile [OF assms(2)])
qed

text \<open>
  Claim C7, amended. With \<open>state = absent\<close> and the inventory in hand: for a user whose
  \<open>name\<close> and \<open>new_name\<close> are both missing from the user inventory, and for a group
  whose name is missing from the group inventory, the run exits with \<open>changed = False\<close>
  and issues no provider call. For a role whose name is missing from the role
  inventory and from the instance profiles of the inventory, the run exits with
  \<open>changed = False\<close> and its one provider call is the \<open>list_roles\<close> that refreshes the
  returned role list.
\<close>

theorem absent_on_missing:
  assumes "arg_state prm = Absent"
  shows "(arg_iam_type prm = User \<longrightarrow>
            arg_name prm \<notin> Some ` set (orig_user_list ivt) \<longrightarrow>
            arg_new_name prm \<notin> Some ` set (orig_user_list ivt) \<longrightarrow>
            reconcile p prm key_state key_ids ivt (s, tr) = (Halt (ExitJson (PyBool False)), (s, tr)))
       \<and> (arg_iam_type prm = Group \<longrightarrow>
            arg_name prm \<notin> Some ` set (orig_group_list ivt) \<longrightarrow>
            reconcile p prm key_state key_ids ivt (s, tr) = (Halt (ExitJson (PyBool False)), (s, tr)))
       \<and> (arg_iam_type prm = Role \<longrightarrow>
            arg_name prm \<notin> Some ` set (orig_role_list ivt) \<longrightarrow>
            arg_name prm \<notin> Some ` set (orig_prof_list ivt) \<longrightarrow>
            fst (p s ListRoles) = Names rl \<longrightarrow>
            reconcile p prm key_state key_ids ivt (s, tr)
              = (Halt (ExitJson (PyBool False)), (snd (p s ListRoles), tr @ [ListRoles])))"
proof (intro conjI impI)
  assume user: "arg_iam_type prm = User"
    and a: "arg_name prm \<notin> Some ` set (orig_user_list ivt)"
    and b: "arg_new_name prm \<notin> Some ` set (orig_user_list ivt)"
  have "\<not> list_ex (\<lambda>n. Some n = arg_name prm \<or> Some n = arg_new_name prm) (orig_user_list ivt)"
    unfolding list_ex_iff using a b by (metis imageI)
  with user show "reconcile p prm key_state key_ids ivt (s, tr) = (Halt (ExitJson (PyBool False)), (s, tr))"
    using assms
    by (simp add: reconcile_def user_branch_def Let_def bnd_def ret_def exit_json_def)
next
  assume "arg_iam_type prm = Group" and "arg_name prm \<notin> Some ` set (orig_group_list ivt)"
  then show "reconcile p prm key_state key_ids ivt (s, tr) = (Halt (ExitJson (PyBool False)), (s, tr))"
    using assms
    by (simp add: reconcile_def group_branch_def Let_def exit_json_def)
next
  assume role: "arg_iam_type prm = Role"
    and miss: "arg_name prm \<notin> Some ` set (orig_role_list ivt)"
    and noprof: "arg_name prm \<notin> Some ` set (orig_prof_list ivt)"
    and lr: "fst (p s ListRoles) = Names rl"
  from delete_role_nothing_there [where p = p and s = s and tr = tr and rl = rl
      and name = "arg_name prm" and role_list = "orig_role_list ivt"
      and prof_list = "orig_prof_list ivt"] miss noprof lr role assms
  show "reconcile p prm key_state key_ids ivt (s, tr)
          = (Halt (ExitJson (PyBool False)), (snd (p s ListRoles), tr @ [ListRoles]))"
    by (simp add: reconcile_def role_branch_def bnd_def exit_json_def)
qed

theorem absent_on_missing_witness:
  "reconcile steady (default_params\<lparr>arg_iam_type := User, arg_state := Absent, arg_name := Some ''eve''\<rparr>)
     None None snapshot ((), []) = (Halt (ExitJson (PyBool False)), ((), []))
   \<and> reconcile steady (default_params\<lparr>arg_iam_type := Group, arg_state := Absent, arg_name := Some ''g2''\<rparr>)
     None None snapshot ((), []) = (Halt (ExitJson (PyBool False)), ((), []))
   \<and> reconcile steady (default_params\<lparr>arg_iam_type := Role, arg_state := Absent, arg_name := Some ''r3''\<rparr>)
     None None snapshot ((), [])
     = (Halt (ExitJson (PyBool False)), ((), [ListRoles]))"
  using absent_on_missing [where prm = "default_params\<lparr>arg_iam_type := User, arg_state := Absent, arg_name := Some ''eve''\<rparr>"
      and ivt = snapshot and p = steady and key_state = None and key_ids = None and s = "()" and tr = "[]"]
    absent_on_missing [where prm = "default_params\<lparr>arg_iam_type := Group, arg_state := Absent, arg_name := Some ''g2''\<rparr>"
      and ivt = snapshot and p = steady and key_state = None and key_ids = None and s = "()" and tr = "[]"]
    absent_on_missing [where prm = "default_params\<lparr>arg_iam_type := Role, arg_state := Absent, arg_name := Some ''r3''\<rparr>"
      and ivt = snapshot and p = steady and key_state = None and key_ids = None and s = "()" and tr = "[]"
      and rl = "[''r1'']"]
  by (simp add: default_params_def snapshot_def)

subsection \<open>Running present again\<close>

lemma returns_ret [simp]: "returns (ret v) v"
  by (simp add: returns_def ret_def)

lemma halts_with_exit_json [simp]: "halts_with (exit_json c) (ExitJson c)"
  by (simp add: halts_with_def exit_json_def)

lemma returns_bnd:
  assumes "returns m a" and "returns (f a) b"
  shows "returns (bnd m f) b"
  unfolding returns_def
proof
  fix w
  obtain w1 where "m w = (Ret a, w1)"
    using assms(1) unfolding returns_def by blast
  moreover obtain w2 where "f a w1 = (Ret b, w2)"
    using assms(2) unfolding returns_def by blast
  ultimately show "\<exists>w'. bnd m f w = (Ret b, w')"
    by (simp add: bnd_def)
qed

lemma halts_with_bnd:
  assumes "returns m a" and "halts_with (f a) x"
  shows "halts_with (bnd m f) x"
  unfolding halts_with_def
proof
  fix w
  obtain w1 where "m w = (Ret a, w1)"
    using assms(1) unfolding returns_def by blast
  moreover obtain w2 where "f a w1 = (Halt x, w2)"
    using assms(2) unfolding halts_with_def by blast
  ultimately show "\<exists>w'. bnd m f w = (Halt x, w')"
    by (simp add: bnd_def)
qed

lemma returns_try_boto:
  assumes "returns m v"
  shows "returns (try_boto m h) v"
  unfolding returns_def
proof
  fix w
  obtain w1 where "m w = (Ret v, w1)"
    using assms unfolding returns_def by blast
  then show "\<exists>w'. try_boto m h w = (Ret v, w')"
    by (simp add: try_boto_def)
qed

lemma returns_iam:
  assumes "\<forall>s. fst (p s c) = r" and "\<not> is_fault r"
  shows "returns (iam p c) r"
  unfolding returns_def
proof
  fix w :: "'a world"
  obtain s tr where w: "w = (s, tr)" by (cases w)
  from assms have "iam p c (s, tr) = (Ret r, (snd (p s c), tr @ [c]))"
    using iam_ok [of p s c tr] by simp
  with w show "\<exists>w'. iam p c w = (Ret r, w')" by simp
qed

lemma returns_get_keys_and_status:
  assumes "\<forall>s. fst (p s (GetAllAccessKeys name)) = Keys ks"
  shows "returns (get_keys_and_status p name) (map fst ks, map snd ks)"
proof -
  have get: "returns (iam p (GetAllAccessKeys name)) (Keys ks)"
    using assms by (intro returns_iam) simp_all
  show ?thesis
    unfolding get_keys_and_status_def
    by (intro returns_bnd [where a = "Keys ks"] get returns_bnd [where a = ks]) simp_all
qed

lemma returns_update_keys_while:
  "n \<le> q \<Longrightarrow> returns (update_keys_while p name n q changed) changed"
  by (subst update_keys_while_unfold) simp

lemma returns_key_state_step:
  assumes "truthy key_state \<longrightarrow> set (list_py keys) \<inter> set current_keys = {}"
  shows "returns (key_state_step p name key_state keys current_keys status changed) changed"
proof -
  have "set ks \<inter> set current_keys = {} \<Longrightarrow> returns (for_acc
             (\<lambda>access_key changed1.
                if access_key \<in> set current_keys
                then bnd (for_acc
                            (\<lambda>(current_key, current_key_state) changed2.
                               if key_state \<noteq> Some (lower current_key_state)
                               then bnd (try_boto
                                           (iam_do p (UpdateAccessKey access_key
                                                        (capitalize (str_py key_state)) name))
                                           (\<lambda>em tx. fail_json (Some False) tx))
                                      (\<lambda>u. ret True)
                               else ret changed2)
                            (zip current_keys status) changed1)
                       (\<lambda>changed3.
                          if key_state = Some ''remove''
                          then bnd (try_boto (iam_do p (DeleteAccessKey access_key name))
                                      (\<lambda>em tx. fail_json (Some False) tx))
                                 (\<lambda>u. ret True)
                          else ret changed3)
                else ret changed1) ks changed) changed" for ks
    by (induction ks) (auto intro: returns_bnd [where a = changed])
  with assms show ?thesis
    unfolding key_state_step_def by (cases keys) auto
qed

lemma update_user_unchanged:
  assumes keys: "\<forall>s. fst (p s (GetAllAccessKeys name)) = Keys ks"
    and nn: "\<not> truthy new_name" and np: "\<not> truthy new_path" and pw: "\<not> truthy pwd"
    and kc: "key_state = Some ''create'' \<longrightarrow> n \<le> int (length ks)"
    and ki: "truthy key_state \<longrightarrow> set (list_py key_ids) \<inter> fst ` set ks = {}"
  shows "returns (update_user p name new_name new_path key_state n key_ids pwd False)
           (False, dict_of (zip (map fst ks) (map snd ks)), False)"
proof -
  have g: "returns (get_keys_and_status p name) (map fst ks, map snd ks)"
    using returns_get_keys_and_status [where p = p and name = name and ks = ks] keys by simp
  have f: "returns (fetch_current_keys p name new_name False)
             (name, map fst ks, map snd ks, Some (int (length ks)))"
    unfolding fetch_current_keys_def Let_def
    by (simp, intro returns_try_boto returns_bnd [OF g]) simp
  have r: "returns (rename_step p name new_name new_path False) (False, False)"
    using nn np by (simp add: rename_step_def)
  have p: "returns (password_step p name pwd False) False"
    using pw by (simp add: password_step_def)
  have c: "returns (create_keys_step p name key_state n (Some (int (length ks))) False) False"
    using kc by (auto simp: create_keys_step_def intro!: returns_try_boto returns_update_keys_while)
  have k: "returns (key_state_step p name key_state key_ids (map fst ks) (map snd ks) False) False"
    using ki by (intro returns_key_state_step) simp
  show ?thesis
    unfolding update_user_def
    by (intro returns_bnd [OF f] returns_bnd [OF g]; simp)
       (intro returns_bnd [OF r]; simp; intro returns_bnd [OF p] returns_bnd [OF c] returns_bnd [OF k]
          returns_bnd [OF returns_try_boto [OF g]]; simp)
qed

lemma frozenset_difference_same: "set xs = set ys \<Longrightarrow> frozenset_difference xs ys = []"
  by (simp add: frozenset_difference_def filter_empty_conv)

lemma set_users_groups_unchanged:
  assumes cur: "\<forall>s. fst (p s (GetGroupsForUser name)) = Names C" and same: "set C = set D"
  shows "returns (set_users_groups p name D False new_name) (D, False)"
proof -
  have get: "returns (iam p (GetGroupsForUser name)) (Names C)"
    using cur by (intro returns_iam) simp_all
  have d: "frozenset_difference C D = []" "frozenset_difference D C = []"
    using same by (simp_all add: frozenset_difference_same)
  have "C = [] \<Longrightarrow> D = []"
    using same by auto
  then show ?thesis
    unfolding set_users_groups_def Let_def
    by (simp, intro returns_bnd [where a = "(C, [], [])"] returns_try_boto returns_bnd [OF get]
          returns_bnd [where a = C])
       (auto simp: d intro!: returns_bnd [where a = "()"])
qed

lemma update_group_unchanged:
  assumes cur: "\<forall>s. fst (p s (GetGroup name)) = PathOf q"
    and np: "truthy new_path \<longrightarrow> new_path = Some q"
    and nn: "truthy new_name \<longrightarrow> new_name = name"
  shows "returns (update_group p has_module name new_name new_path) (False, name, new_path, q)"
proof -
  have get: "returns (iam p (GetGroup name)) (PathOf q)"
    using cur by (intro returns_iam) simp_all
  have a: "returns (try_boto (bnd (iam p (GetGroup name)) path_of)
                      (\<lambda>em tx. module_fail_json has_module (Some False) tx)) q"
    by (intro returns_try_boto returns_bnd [OF get]) simp
  show ?thesis
    unfolding update_group_def
    using np nn
    by (intro returns_bnd [OF a] returns_bnd [where a = False] returns_bnd [where a = "(False, name)"]
          returns_try_boto)
       auto
qed

lemma create_role_unchanged:
  assumes "name \<in> Some ` set role_list" and "\<forall>s. fst (p s ListRoles) = Names rl"
  shows "returns (create_role p name path role_list prof_list) (False, rl)"
proof -
  have get: "returns (iam p ListRoles) (Names rl)"
    using assms(2) by (intro returns_iam) simp_all
  show ?thesis
    unfolding create_role_def Let_def
    using assms(1)
    by (intro returns_bnd [where a = "()"] returns_bnd [OF get] returns_bnd [where a = rl]
          returns_try_boto)
       auto
qed

text \<open>The reconciliation alone, once validation and the inventory are done.\<close>

lemma reconcile_present_unchanged:
  assumes "arg_state prm = Present"
  shows "(arg_iam_type prm = Role \<longrightarrow>
            arg_name prm \<in> Some ` set (orig_role_list ivt) \<longrightarrow>
            (\<forall>s'. fst (p s' ListRoles) = Names rl) \<longrightarrow>
            (\<exists>w'. reconcile p prm key_state key_ids ivt w = (Halt (ExitJson (PyBool False)), w')))
       \<and> (arg_iam_type prm = Group \<longrightarrow>
            arg_name prm \<in> Some ` set (orig_group_list ivt) \<longrightarrow>
            (\<forall>s'. fst (p s' (GetGroup (arg_name prm))) = PathOf q) \<longrightarrow>
            (truthy (arg_new_path prm) \<longrightarrow> arg_new_path prm = Some q) \<longrightarrow>
            (truthy (arg_new_name prm) \<longrightarrow> arg_new_name prm = arg_name prm) \<longrightarrow>
            (\<exists>w'. reconcile p prm key_state key_ids ivt w = (Halt (ExitJson (PyBool False)), w')))
       \<and> (arg_iam_type prm = User \<longrightarrow>
            arg_name prm \<in> Some ` set (orig_user_list ivt) \<longrightarrow>
            \<not> truthy (arg_new_name prm) \<longrightarrow>
            \<not> truthy (arg_new_path prm) \<longrightarrow>
            (arg_update_password prm = ''on_create'' \<or> \<not> truthy (arg_password prm)) \<longrightarrow>
            (\<forall>s'. fst (p s' (GetUser (arg_name prm))) = PathOf q) \<longrightarrow>
            arg_path prm = Some q \<longrightarrow>
            (\<forall>s'. fst (p s' (GetAllAccessKeys (arg_name prm))) = Keys ks) \<longrightarrow>
            (key_state = Some ''create'' \<longrightarrow> arg_key_count prm \<le> int (length ks)) \<longrightarrow>
            (truthy key_state \<longrightarrow> set (list_py key_ids) \<inter> fst ` set ks = {}) \<longrightarrow>
            (truthy_list (arg_groups prm) \<longrightarrow>
               (\<forall>s'. fst (p s' (GetGroupsForUser (arg_name prm))) = Names C)
               \<and> set C = set (list_py (arg_groups prm))) \<longrightarrow>
            (\<exists>w'. reconcile p prm key_state key_ids ivt w = (Halt (ExitJson (PyBool False)), w')))"
proof (intro conjI impI)
  assume role: "arg_iam_type prm = Role"
    and "arg_name prm \<in> Some ` set (orig_role_list ivt)"
    and "\<forall>s'. fst (p s' ListRoles) = Names rl"
  then have "returns (create_role p (arg_name prm) (arg_path prm) (orig_role_list ivt) (orig_prof_list ivt))
               (False, rl)"
    using create_role_unchanged [where p = p and name = "arg_name prm" and rl = rl
        and role_list = "orig_role_list ivt"]
    by simp
  then have "halts_with (reconcile p prm key_state key_ids ivt) (ExitJson (PyBool False))"
    using role assms
    by (simp add: reconcile_def role_branch_def) (erule halts_with_bnd, simp)
  then show "\<exists>w'. reconcile p prm key_state key_ids ivt w = (Halt (ExitJson (PyBool False)), w')"
    unfolding halts_with_def by blast
next
  assume grp: "arg_iam_type prm = Group"
    and ex: "arg_name prm \<in> Some ` set (orig_group_list ivt)"
    and "\<forall>s'. fst (p s' (GetGroup (arg_name prm))) = PathOf q"
    and "truthy (arg_new_path prm) \<longrightarrow> arg_new_path prm = Some q"
    and "truthy (arg_new_name prm) \<longrightarrow> arg_new_name prm = arg_name prm"
  then have "returns (update_group p False (arg_name prm) (arg_new_name prm) (arg_new_path prm))
               (False, arg_name prm, arg_new_path prm, q)"
    using update_group_unchanged [where p = p and has_module = False and name = "arg_name prm" and q = q
        and new_name = "arg_new_name prm" and new_path = "arg_new_path prm"]
    by simp
  then have "halts_with (reconcile p prm key_state key_ids ivt) (ExitJson (PyBool False))"
    using grp ex assms
    by (simp add: reconcile_def group_branch_def Let_def) (erule halts_with_bnd, simp)
  then show "\<exists>w'. reconcile p prm key_state key_ids ivt w = (Halt (ExitJson (PyBool False)), w')"
    unfolding halts_with_def by blast
next
  assume user: "arg_iam_type prm = User"
    and ex: "arg_name prm \<in> Some ` set (orig_user_list ivt)"
    and nn: "\<not> truthy (arg_new_name prm)"
    and np: "\<not> truthy (arg_new_path prm)"
    and pw: "arg_update_password prm = ''on_create'' \<or> \<not> truthy (arg_password prm)"
    and gu: "\<forall>s'. fst (p s' (GetUser (arg_name prm))) = PathOf q"
    and path: "arg_path prm = Some q"
    and keys: "\<forall>s'. fst (p s' (GetAllAccessKeys (arg_name prm))) = Keys ks"
    and kc: "key_state = Some ''create'' \<longrightarrow> arg_key_count prm \<le> int (length ks)"
    and ki: "truthy key_state \<longrightarrow> set (list_py key_ids) \<inter> fst ` set ks = {}"
    and gr: "truthy_list (arg_groups prm) \<longrightarrow>
               (\<forall>s'. fst (p s' (GetGroupsForUser (arg_name prm))) = Names C)
               \<and> set C = set (list_py (arg_groups prm))"
  let ?pw = "if arg_update_password prm = ''on_create'' then None else arg_password prm"
  let ?d = "dict_of (zip (map fst ks) (map snd ks))"
  have exu: "list_ex (\<lambda>n. Some n = arg_name prm \<or> Some n = arg_new_name prm) (orig_user_list ivt)"
    using ex by (auto simp: list_ex_iff)
  have get: "returns (iam p (GetUser (arg_name prm))) (PathOf q)"
    using gu by (intro returns_iam) simp_all
  have pre: "returns (bnd (iam p (GetUser (arg_name prm))) (\<lambda>r.
                bnd (path_of r) (\<lambda>current_path.
                if \<not> truthy (arg_new_path prm) \<and> Some current_path \<noteq> arg_path prm
                then ret (arg_path prm, Some current_path)
                else ret (arg_new_path prm, arg_path prm)))) (arg_new_path prm, arg_path prm)"
    using path by (intro returns_bnd [OF get] returns_bnd [where a = q]) simp_all
  have upd: "returns (update_user p (arg_name prm) (arg_new_name prm) (arg_new_path prm) key_state
                (arg_key_count prm) key_ids ?pw False) (False, ?d, False)"
    using pw by (intro update_user_unchanged keys nn np kc ki) auto
  have grp: "truthy_list (arg_groups prm) \<Longrightarrow>
      returns (set_users_groups p (arg_name prm) (list_py (arg_groups prm)) False (arg_new_name prm))
        (list_py (arg_groups prm), False)"
    using gr set_users_groups_unchanged [where p = p and name = "arg_name prm" and C = C
        and D = "list_py (arg_groups prm)" and new_name = "arg_new_name prm"]
    by simp
  have "halts_with (user_branch p prm key_state key_ids ivt) (ExitJson (PyBool False))"
  proof (cases "arg_update_password prm = ''on_create''")
    case True
    with upd have upd': "returns (update_user p (arg_name prm) (arg_new_name prm) (arg_new_path prm)
        key_state (arg_key_count prm) key_ids None False) (False, ?d, False)"
      by simp
    show ?thesis
      unfolding user_branch_def Let_def
      using exu ex nn assms True
      apply simp
      apply (rule halts_with_bnd [OF pre])
      apply simp
      apply (rule halts_with_bnd [OF upd'])
      apply simp
      apply (intro conjI impI)
       apply (rule halts_with_bnd [where a = False])
        apply (rule returns_bnd [OF grp]; simp)
       apply simp
      apply (rule halts_with_bnd [where a = False]; simp)
      done
  next
    case False
    with upd have upd': "returns (update_user p (arg_name prm) (arg_new_name prm) (arg_new_path prm)
        key_state (arg_key_count prm) key_ids (arg_password prm) False) (False, ?d, False)"
      by simp
    show ?thesis
      unfolding user_branch_def Let_def
      using exu ex nn assms False
      apply simp
      apply (rule halts_with_bnd [OF pre])
      apply simp
      apply (rule halts_with_bnd [OF upd'])
      apply simp
      apply (intro conjI impI)
       apply (rule halts_with_bnd [where a = False])
        apply (rule returns_bnd [OF grp]; simp)
       apply simp
      apply (rule halts_with_bnd [where a = False]; simp)
      done
  qed
  then show "\<exists>w'. reconcile p prm key_state key_ids ivt w = (Halt (ExitJson (PyBool False)), w')"
    using user unfolding halts_with_def reconcile_def by (cases w) auto
qed

lemma returns_fetch_inventory:
  assumes "\<forall>s'. fst (p s' GetAllGroups) = Names gl"
    and "\<forall>s'. fst (p s' GetAllUsers) = Names ul"
    and "\<forall>s'. fst (p s' ListRoles) = Names rl"
    and "\<forall>s'. fst (p s' ListInstanceProfiles) = Names pl"
  shows "returns (fetch_inventory p)
           \<lparr>orig_group_list = gl, orig_user_list = ul, orig_role_list = rl, orig_prof_list = pl\<rparr>"
proof -
  have g: "returns (iam p GetAllGroups) (Names gl)"
    using assms(1) by (intro returns_iam) simp_all
  have u: "returns (iam p GetAllUsers) (Names ul)"
    using assms(2) by (intro returns_iam) simp_all
  have r: "returns (iam p ListRoles) (Names rl)"
    using assms(3) by (intro returns_iam) simp_all
  have i: "returns (iam p ListInstanceProfiles) (Names pl)"
    using assms(4) by (intro returns_iam) simp_all
  show ?thesis
    unfolding fetch_inventory_def
    by (intro returns_try_boto returns_bnd [OF g] returns_bnd [OF u] returns_bnd [OF r]
          returns_bnd [OF i] returns_bnd [where a = gl] returns_bnd [where a = ul]
          returns_bnd [where a = rl] returns_bnd [where a = pl])
       simp_all
qed

lemma returns_validate_plain:
  assumes "arg_password prm = None" and "arg_access_key_state prm = None"
    and "arg_state prm = Present"
  shows "returns (validate prm) (None, arg_access_key_ids prm)"
  using assms by (simp add: returns_def validate_def bnd_def ret_def)

lemma returns_validate_user:
  assumes "arg_iam_type prm = User"
    and "arg_access_key_state prm \<in> {None, Some ''create'', Some ''Create'', Some ''remove'', Some ''Remove''}"
  shows "returns (validate prm) (map_option lower (arg_access_key_state prm), arg_access_key_ids prm)"
  using assms
  by (auto simp: returns_def validate_def bnd_def ret_def lower_def lower_char_def)

lemma halts_with_main:
  fixes p :: "'s provider"
  assumes "returns (validate prm :: ('s, pystr \<times> string list option) prog) (key_state, key_ids)"
    and "returns (fetch_inventory p) ivt"
    and "\<And>w. \<exists>w'. reconcile p prm key_state key_ids ivt w = (Halt x, w')"
  shows "\<exists>w'. main p prm w = (Halt x, w')"
proof -
  have "halts_with (reconcile p prm key_state key_ids ivt) x"
    using assms(3) unfolding halts_with_def by blast
  then have fi: "halts_with (bnd (fetch_inventory p) (\<lambda>ivt. reconcile p prm key_state key_ids ivt)) x"
    by (rule halts_with_bnd [OF assms(2)])
  have "halts_with (main p prm) x"
    unfolding main_def
    by (rule halts_with_bnd [OF assms(1)]) (simp add: fi)
  then show ?thesis
    unfolding halts_with_def by blast
qed

lemma lower_key_state_create:
  "ks \<in> {None, Some ''create'', Some ''Create'', Some ''remove'', Some ''Remove''} \<Longrightarrow>
   (map_option lower ks = Some ''create'') = (ks \<in> {Some ''create'', Some ''Create''})"
  by (auto simp: lower_def lower_char_def)

text \<open>
  Claim C9, amended. With \<open>state = present\<close> and a provider that answers alike in every
  state, \<open>main\<close> exits with \<open>changed = False\<close>: for a role in the role inventory and for
  a group in the group inventory whose \<open>new_path\<close>, if given, is its current path and
  whose \<open>new_name\<close>, if given, is its name (both without password and access-key
  parameters); and for a user in the user inventory with no \<open>new_name\<close> and no
  \<open>new_path\<close>, with no password to apply (none given, or
  \<open>update_password = on_create\<close>), with \<open>access_key_state\<close> absent, create or remove,
  whose path is \<open>path\<close>, who has at least \<open>key_count\<close> keys when keys are to be created,
  none of the listed key ids, and exactly the groups asked for.
\<close>

theorem present_idempotent:
  assumes "arg_state prm = Present"
    and "\<forall>s'. fst (p s' GetAllGroups) = Names gl"
    and "\<forall>s'. fst (p s' GetAllUsers) = Names ul"
    and "\<forall>s'. fst (p s' ListRoles) = Names rl"
    and "\<forall>s'. fst (p s' ListInstanceProfiles) = Names pl"
  shows "(arg_iam_type prm = Role \<longrightarrow>
            arg_password prm = None \<longrightarrow>
            arg_access_key_state prm = None \<longrightarrow>
            arg_name prm \<in> Some ` set rl \<longrightarrow>
            (\<exists>w'. main p prm w = (Halt (ExitJson (PyBool False)), w')))
       \<and> (arg_iam_type prm = Group \<longrightarrow>
            arg_password prm = None \<longrightarrow>
            arg_access_key_state prm = None \<longrightarrow>
            arg_name prm \<in> Some ` set gl \<longrightarrow>
            (\<forall>s'. fst (p s' (GetGroup (arg_name prm))) = PathOf q) \<longrightarrow>
            (truthy (arg_new_path prm) \<longrightarrow> arg_new_path prm = Some q) \<longrightarrow>
            (truthy (arg_new_name prm) \<longrightarrow> arg_new_name prm = arg_name prm) \<longrightarrow>
            (\<exists>w'. main p prm w = (Halt (ExitJson (PyBool False)), w')))
       \<and> (arg_iam_type prm = User \<longrightarrow>
            arg_name prm \<in> Some ` set ul \<longrightarrow>
            \<not> truthy (arg_new_name prm) \<longrightarrow>
            \<not> truthy (arg_new_path prm) \<longrightarrow>
            (arg_update_password prm = ''on_create'' \<or> \<not> truthy (arg_password prm)) \<longrightarrow>
            (\<forall>s'. fst (p s' (GetUser (arg_name prm))) = PathOf q) \<longrightarrow>
            arg_path prm = Some q \<longrightarrow>
            (\<forall>s'. fst (p s' (GetAllAccessKeys (arg_name prm))) = Keys ks) \<longrightarrow>
            arg_access_key_state prm
              \<in> {None, Some ''create'', Some ''Create'', Some ''remove'', Some ''Remove''} \<longrightarrow>
            (arg_access_key_state prm \<in> {Some ''create'', Some ''Create''} \<longrightarrow>
               arg_key_count prm \<le> int (length ks)) \<longrightarrow>
            (arg_access_key_state prm \<noteq> None \<longrightarrow>
               set (list_py (arg_access_key_ids prm)) \<inter> fst ` set ks = {}) \<longrightarrow>
            (truthy_list (arg_groups prm) \<longrightarrow>
               (\<forall>s'. fst (p s' (GetGroupsForUser (arg_name prm))) = Names C)
               \<and> set C = set (list_py (arg_groups prm))) \<longrightarrow>
            (\<exists>w'. main p prm w = (Halt (ExitJson (PyBool False)), w')))"
proof -
  let ?ivt = "\<lparr>orig_group_list = gl, orig_user_list = ul, orig_role_list = rl, orig_prof_list = pl\<rparr>"
  have inv: "returns (fetch_inventory p) ?ivt"
    using returns_fetch_inventory [where p = p and gl = gl and ul = ul and rl = rl and pl = pl]
      assms(2-5)
    by simp
  show ?thesis
  proof (intro conjI impI)
    assume h: "arg_iam_type prm = Role" "arg_password prm = None"
      "arg_access_key_state prm = None" "arg_name prm \<in> Some ` set rl"
    have v: "returns (validate prm :: ('a, pystr \<times> string list option) prog)
               (None, arg_access_key_ids prm)"
      using h assms(1) by (intro returns_validate_plain)
    have "\<And>w. \<exists>w'. reconcile p prm None (arg_access_key_ids prm) ?ivt w
            = (Halt (ExitJson (PyBool False)), w')"
      using reconcile_present_unchanged [where p = p and prm = prm and ivt = ?ivt and rl = rl
          and key_state = None and key_ids = "arg_access_key_ids prm"] assms(1,4) h
      by simp
    then show "\<exists>w'. main p prm w = (Halt (ExitJson (PyBool False)), w')"
      by (rule halts_with_main [OF v inv])
  next
    assume h: "arg_iam_type prm = Group" "arg_password prm = None"
      "arg_access_key_state prm = None" "arg_name prm \<in> Some ` set gl"
      "\<forall>s'. fst (p s' (GetGroup (arg_name prm))) = PathOf q"
      "truthy (arg_new_path prm) \<longrightarrow> arg_new_path prm = Some q"
      "truthy (arg_new_name prm) \<longrightarrow> arg_new_name prm = arg_name prm"
    have v: "returns (validate prm :: ('a, pystr \<times> string list option) prog)
               (None, arg_access_key_ids prm)"
      using h assms(1) by (intro returns_validate_plain)
    have "\<And>w. \<exists>w'. reconcile p prm None (arg_access_key_ids prm) ?ivt w
            = (Halt (ExitJson (PyBool False)), w')"
      using reconcile_present_unchanged [where p = p and prm = prm and ivt = ?ivt and q = q
          and key_state = None and key_ids = "arg_access_key_ids prm"] assms(1) h
      by simp
    then show "\<exists>w'. main p prm w = (Halt (ExitJson (PyBool False)), w')"
      by (rule halts_with_main [OF v inv])
  next
    assume h: "arg_iam_type prm = User" "arg_name prm \<in> Some ` set ul"
      "\<not> truthy (arg_new_name prm)" "\<not> truthy (arg_new_path prm)"
      "arg_update_password prm = ''on_create'' \<or> \<not> truthy (arg_password prm)"
      "\<forall>s'. fst (p s' (GetUser (arg_name prm))) = PathOf q"
      "arg_path prm = Some q"
      "\<forall>s'. fst (p s' (GetAllAccessKeys (arg_name prm))) = Keys ks"
      and st: "arg_access_key_state prm
              \<in> {None, Some ''create'', Some ''Create'', Some ''remove'', Some ''Remove''}"
      and kc: "arg_access_key_state prm \<in> {Some ''create'', Some ''Create''} \<longrightarrow>
               arg_key_count prm \<le> int (length ks)"
      and ki: "arg_access_key_state prm \<noteq> None \<longrightarrow>
               set (list_py (arg_access_key_ids prm)) \<inter> fst ` set ks = {}"
      and gr: "truthy_list (arg_groups prm) \<longrightarrow>
               (\<forall>s'. fst (p s' (GetGroupsForUser (arg_name prm))) = Names C)
               \<and> set C = set (list_py (arg_groups prm))"
    let ?ks = "map_option lower (arg_access_key_state prm)"
    have v: "returns (validate prm :: ('a, pystr \<times> string list option) prog)
               (?ks, arg_access_key_ids prm)"
      using h(1) st by (intro returns_validate_user)
    have kc': "?ks = Some ''create'' \<longrightarrow> arg_key_count prm \<le> int (length ks)"
      using kc lower_key_state_create [OF st] by simp
    have ki': "truthy ?ks \<longrightarrow> set (list_py (arg_access_key_ids prm)) \<inter> fst ` set ks = {}"
      using ki by (cases "arg_access_key_state prm") auto
    have "\<And>w. \<exists>w'. reconcile p prm ?ks (arg_access_key_ids prm) ?ivt w
            = (Halt (ExitJson (PyBool False)), w')"
      using reconcile_present_unchanged [where p = p and prm = prm and ivt = ?ivt and q = q
          and key_state = ?ks and key_ids = "arg_access_key_ids prm" and ks = ks and C = C]
        assms(1) h kc' ki' gr
      by simp
    then show "\<exists>w'. main p prm w = (Halt (ExitJson (PyBool False)), w')"
      by (rule halts_with_main [OF v inv])
  qed
qed

theorem present_idempotent_witness:
  "(\<exists>w'. main steady (default_params\<lparr>arg_iam_type := Role, arg_name := Some ''r1''\<rparr>) ((), [])
           = (Halt (ExitJson (PyBool False)), w'))
   \<and> (\<exists>w'. main steady (default_params\<lparr>arg_iam_type := Group, arg_name := Some ''g1'',
                            arg_new_path := Some ''/''\<rparr>) ((), [])
           = (Halt (ExitJson (PyBool False)), w'))
   \<and> (\<exists>w'. main steady
           (default_params\<lparr>arg_name := Some ''bob'', arg_groups := Some [''g1''],
              arg_access_key_state := Some ''create''\<rparr>) ((), [])
           = (Halt (ExitJson (PyBool False)), w'))"
  using present_idempotent [where prm = "default_params\<lparr>arg_iam_type := Role, arg_name := Some ''r1''\<rparr>"
      and p = steady and gl = "[''g1'']" and ul = "[''bob'']" and rl = "[''r1'']" and pl = "[''r1'']"
      and w = "((), [])"]
    present_idempotent [where prm = "default_params\<lparr>arg_iam_type := Group, arg_name := Some ''g1'',
                            arg_new_path := Some ''/''\<rparr>"
      and p = steady and gl = "[''g1'']" and ul = "[''bob'']" and rl = "[''r1'']" and pl = "[''r1'']"
      and q = "''/''" and w = "((), [])"]
    present_idempotent [where prm = "default_params\<lparr>arg_name := Some ''bob'', arg_groups := Some [''g1''],
              arg_access_key_state := Some ''create''\<rparr>"
      and p = steady and gl = "[''g1'']" and ul = "[''bob'']" and rl = "[''r1'']" and pl = "[''r1'']"
      and q = "''/''" and ks = "[(''K1'', ''Active'')]" and C = "[''g1'']" and w = "((), [])"]
  by (simp add: default_params_def)

text \<open>
  Claim C9 as stated (a second present with the same desired state reports
  \<open>changed = false\<close>, for users too) fails on the account of \<open>steady\<close>, which no call
  changes, so that every run is a run on an account that already matches. With a
  password, present for user bob reports \<open>changed = True\<close> on the second run as on the
  first, since \<open>update_login_profile\<close> is called and counted every time. With
  \<open>new_path\<close> equal to bob's path, or \<open>new_name\<close> equal to bob's name, \<open>update_user\<close> is
  called again and \<open>changed = True\<close> reported, since line 263 compares the name with an
  absent \<open>new_name\<close> or the path with an absent \<open>new_path\<close>. With
  \<open>access_key_state = create\<close> and the id of an existing key, \<open>update_access_key\<close> is
  called with status Create. With \<open>access_key_state = active\<close> the run ends in
  \<open>UnboundLocalError\<close>.
\<close>

theorem present_again_not_unchanged:
  "fst (main steady (default_params\<lparr>arg_name := Some ''bob'', arg_password := Some ''pw''\<rparr>)
          (fst (snd (main steady (default_params\<lparr>arg_name := Some ''bob'', arg_password := Some ''pw''\<rparr>)
                       ((), []))), []))
   = Halt (ExitJson (PyBool True))
   \<and> main steady (default_params\<lparr>arg_name := Some ''bob'', arg_new_path := Some ''/''\<rparr>) ((), [])
   = (Halt (ExitJson (PyBool True)), (),
      [GetAllGroups, GetAllUsers, ListRoles, ListInstanceProfiles, GetUser (Some ''bob''),
       GetAllAccessKeys (Some ''bob''), GetAllAccessKeys (Some ''bob''), GetUser (Some ''bob''),
       UpdateUser (Some ''bob'') None (Some ''/''),
       GetAllAccessKeys (Some ''bob''), GetAllAccessKeys (Some ''bob'')])
   \<and> main steady (default_params\<lparr>arg_name := Some ''bob'', arg_new_name := Some ''bob''\<rparr>) ((), [])
   = (Halt (ExitJson (PyBool True)), (),
      [GetAllGroups, GetAllUsers, ListRoles, ListInstanceProfiles, GetUser (Some ''bob''),
       GetAllAccessKeys (Some ''bob''), GetAllAccessKeys (Some ''bob''), GetUser (Some ''bob''),
       UpdateUser (Some ''bob'') (Some ''bob'') None,
       GetAllAccessKeys (Some ''bob''), GetAllAccessKeys (Some ''bob'')])
   \<and> main steady (default_params\<lparr>arg_name := Some ''bob'', arg_access_key_state := Some ''create'',
                     arg_access_key_ids := Some [''K1'']\<rparr>) ((), [])
   = (Halt (ExitJson (PyBool True)), (),
      [GetAllGroups, GetAllUsers, ListRoles, ListInstanceProfiles, GetUser (Some ''bob''),
       GetAllAccessKeys (Some ''bob''), GetAllAccessKeys (Some ''bob''),
       UpdateAccessKey ''K1'' ''Create'' (Some ''bob''),
       GetAllAccessKeys (Some ''bob''), GetAllAccessKeys (Some ''bob'')])
   \<and> main steady (default_params\<lparr>arg_name := Some ''bob'', arg_access_key_state := Some ''active'',
                     arg_access_key_ids := Some [''K9'']\<rparr>) ((), [])
   = (Raise (UnboundLocalError ''key_ids''), (), [])"
  by code_simp

end
